theory Spec2Isabelle
  imports Complex_Main
begin

section \<open>Matrix factorization by gradient descent: the \<open>sgd\<close> routine\<close>

text \<open>
  The development embeds the three functions \<open>lossfunc\<close>, \<open>grads\<close> and \<open>sgd\<close> of the
  notebook "Matrix Factorization using Gradient Descent Excercise" and the numpy
  operations they call.

  Numbers are real numbers: rounding, overflow and infinities of IEEE doubles are not
  modelled. The one non-finite value that the routine can produce from finite input
  without rounding, the NaN that \<open>np.mean\<close> returns on an array without entries, is
  modelled (type \<open>pyfloat\<close>), because it decides whether the loop leaves.
  The line \<open>print(...)\<close> of the loop body is not modelled.
\<close>

subsection \<open>Two-dimensional arrays\<close>

text \<open>
  A two-dimensional numpy array is its shape and its entries. \<open>ent A i j\<close> is read only
  for \<open>i < nrows A\<close> and \<open>j < ncols A\<close>; no operation below depends on \<open>ent\<close> outside
  that range.
\<close>

datatype error = ValueError

record ndarray =
  nrows :: nat
  ncols :: nat
  ent :: "nat \<Rightarrow> nat \<Rightarrow> real"

definition shape :: "ndarray \<Rightarrow> nat \<times> nat" where
  "shape A = (nrows A, ncols A)"

text \<open>An array written as the list of its rows, for concrete inputs.\<close>

definition of_rows :: "real list list \<Rightarrow> ndarray" where
  "of_rows rs =
     \<lparr>nrows = length rs, ncols = (case rs of [] \<Rightarrow> 0 | r # _ \<Rightarrow> length r),
      ent = (\<lambda>i j. rs ! i ! j)\<rparr>"

text \<open>Sequencing of computations that may raise.\<close>

definition bind :: "error + 'a \<Rightarrow> ('a \<Rightarrow> error + 'b) \<Rightarrow> error + 'b" where
  "bind x f = (case x of Inl e \<Rightarrow> Inl e | Inr a \<Rightarrow> f a)"

text \<open>\<open>np.matmul(A, B)\<close> (also \<open>A @ B\<close>): raises when the inner dimensions differ.\<close>

definition matmul :: "ndarray \<Rightarrow> ndarray \<Rightarrow> error + ndarray" where
  "matmul A B =
     (if ncols A = nrows B
      then Inr \<lparr>nrows = nrows A, ncols = ncols B,
                ent = (\<lambda>i j. \<Sum>k<ncols A. ent A i k * ent B k j)\<rparr>
      else Inl ValueError)"

text \<open>
  Elementwise binary operators broadcast: two dimensions are compatible when they are
  equal or one of them is 1, and the array of dimension 1 is then read at index 0.
\<close>

definition bdim :: "nat \<Rightarrow> nat \<Rightarrow> nat option" where
  "bdim a b = (if a = b then Some a else if a = 1 then Some b
               else if b = 1 then Some a else None)"

definition bidx :: "nat \<Rightarrow> nat \<Rightarrow> nat" where
  "bidx n i = (if n = 1 then 0 else i)"

definition broadcast2 :: "(real \<Rightarrow> real \<Rightarrow> real) \<Rightarrow> ndarray \<Rightarrow> ndarray \<Rightarrow> error + ndarray" where
  "broadcast2 f A B =
     (case bdim (nrows A) (nrows B) of
        None \<Rightarrow> Inl ValueError
      | Some r \<Rightarrow>
          (case bdim (ncols A) (ncols B) of
             None \<Rightarrow> Inl ValueError
           | Some c \<Rightarrow>
               Inr \<lparr>nrows = r, ncols = c,
                    ent = (\<lambda>i j. f (ent A (bidx (nrows A) i) (bidx (ncols A) j))
                                   (ent B (bidx (nrows B) i) (bidx (ncols B) j)))\<rparr>))"

definition np_sub :: "ndarray \<Rightarrow> ndarray \<Rightarrow> error + ndarray" where
  "np_sub A B = broadcast2 (\<lambda>x y. x - y) A B"

definition np_add :: "ndarray \<Rightarrow> ndarray \<Rightarrow> error + ndarray" where
  "np_add A B = broadcast2 (\<lambda>x y. x + y) A B"

text \<open>A Python float times an array.\<close>

definition smul :: "real \<Rightarrow> ndarray \<Rightarrow> ndarray" where
  "smul c A = \<lparr>nrows = nrows A, ncols = ncols A, ent = (\<lambda>i j. c * ent A i j)\<rparr>"

text \<open>\<open>A.T\<close>\<close>

definition transpose_arr :: "ndarray \<Rightarrow> ndarray" where
  "transpose_arr A = \<lparr>nrows = ncols A, ncols = nrows A, ent = (\<lambda>i j. ent A j i)\<rparr>"

text \<open>\<open>np.abs\<close> of an array.\<close>

definition np_abs :: "ndarray \<Rightarrow> ndarray" where
  "np_abs A = \<lparr>nrows = nrows A, ncols = ncols A, ent = (\<lambda>i j. \<bar>ent A i j\<bar>)\<rparr>"

text \<open>The sum of all entries, and \<open>np.linalg.norm\<close> (the Frobenius norm) and \<open>np.square\<close>.\<close>

definition total :: "ndarray \<Rightarrow> real" where
  "total A = (\<Sum>i<nrows A. \<Sum>j<ncols A. ent A i j)"

definition linalg_norm :: "ndarray \<Rightarrow> real" where
  "linalg_norm A = sqrt (\<Sum>i<nrows A. \<Sum>j<ncols A. (ent A i j)\<^sup>2)"

definition np_square :: "real \<Rightarrow> real" where
  "np_square x = x * x"

text \<open>
  A Python float that is a number or NaN. \<open>np.mean\<close> of an array without entries is NaN
  (0/0, with a warning and no exception); arithmetic on NaN gives NaN and every
  comparison with NaN is false.
\<close>

datatype pyfloat = Fin real | NaN

definition np_mean :: "ndarray \<Rightarrow> pyfloat" where
  "np_mean A = (if nrows A * ncols A = 0 then NaN
                else Fin (total A / real (nrows A * ncols A)))"

fun fl_abs :: "pyfloat \<Rightarrow> pyfloat" where
  "fl_abs (Fin x) = Fin \<bar>x\<bar>"
| "fl_abs NaN = NaN"

fun fl_sub :: "pyfloat \<Rightarrow> pyfloat \<Rightarrow> pyfloat" where
  "fl_sub (Fin x) (Fin y) = Fin (x - y)"
| "fl_sub _ _ = NaN"

fun fl_less :: "pyfloat \<Rightarrow> real \<Rightarrow> bool" where
  "fl_less (Fin x) y = (x < y)"
| "fl_less NaN y = False"

subsection \<open>The loss and the gradients\<close>

text \<open>
  \<^verbatim>\<open>
  def lossfunc(Mat,W,H,lamda):
      Mat_pred=np.matmul(W,H)
      loss = 0.5 * np.square(np.linalg.norm(Mat-Mat_pred))
           + 0.5 * lamda * (np.square(np.linalg.norm(W)) + np.square(np.linalg.norm(Mat-Mat_pred)))
      return(loss)
  \<close>
\<close>

definition lossfunc :: "ndarray \<Rightarrow> ndarray \<Rightarrow> ndarray \<Rightarrow> real \<Rightarrow> error + real" where
  "lossfunc Mat W H lamda =
     bind (matmul W H) (\<lambda>Mat_pred.
     bind (np_sub Mat Mat_pred) (\<lambda>R1.
     bind (np_sub Mat Mat_pred) (\<lambda>R2.
       Inr (0.5 * np_square (linalg_norm R1)
            + 0.5 * lamda * (np_square (linalg_norm W) + np_square (linalg_norm R2))))))"

text \<open>
  \<^verbatim>\<open>
  def grads(Mat,W,H,lamda):
      grad_w= np.matmul((np.matmul(W,H) - Mat), H.T) + lamda*W
      grad_h= np.matmul(W.T, (np.matmul(W,H) - Mat)) + lamda*H
      return(grad_w,grad_h)
  \<close>
\<close>

definition grads :: "ndarray \<Rightarrow> ndarray \<Rightarrow> ndarray \<Rightarrow> real \<Rightarrow> error + ndarray \<times> ndarray" where
  "grads Mat W H lamda =
     bind (matmul W H) (\<lambda>P1.
     bind (np_sub P1 Mat) (\<lambda>D1.
     bind (matmul D1 (transpose_arr H)) (\<lambda>G1.
     bind (np_add G1 (smul lamda W)) (\<lambda>grad_w.
     bind (matmul W H) (\<lambda>P2.
     bind (np_sub P2 Mat) (\<lambda>D2.
     bind (matmul (transpose_arr W) D2) (\<lambda>G2.
     bind (np_add G2 (smul lamda H)) (\<lambda>grad_h.
       Inr (grad_w, grad_h)))))))))"

subsection \<open>The loop\<close>

text \<open>
  The variables of \<open>sgd\<close> that live across iterations. \<open>Error1\<close>, \<open>Loss\<close>, \<open>grad_w\<close>,
  \<open>grad_h\<close>, \<open>w_k\<close> and \<open>h_k\<close> are assigned before they are read in each iteration and
  are not part of the state. Field \<open>s_x\<close> holds the variable \<open>x\<close>.
\<close>

record sgd_state =
  s_i :: nat
  s_Error2 :: pyfloat
  s_w_history :: "ndarray list"
  s_h_history :: "ndarray list"
  s_loss_history :: "real list"
  s_W :: ndarray
  s_H :: ndarray

text \<open>
  The signed mean of the residual \<open>Mat - W@H\<close>, the argument of \<open>np.abs\<close> in the line
  \<open>Error2 = np.abs(np.mean(Mat -W@H))\<close>.
\<close>

definition mean_residual :: "ndarray \<Rightarrow> ndarray \<Rightarrow> ndarray \<Rightarrow> error + pyfloat" where
  "mean_residual Mat W' H' =
     bind (matmul W' H') (\<lambda>P. bind (np_sub Mat P) (\<lambda>R. Inr (np_mean R)))"

text \<open>
  One pass through the body of \<open>while(1)\<close>, up to and including the assignment of
  \<open>Error2\<close>:
  \<^verbatim>\<open>
        w_history.append(W)
        h_history.append(H)
        w_k=W
        h_k=H
        Loss= lossfunc(Mat,W,H,lamda)
        loss_history.append(Loss)
        grad_w,grad_h= grads(Mat,W,H,lamda)
        W = W - eta*grad_w
        H = H - eta*grad_h
        i+=1
        Error1=Error2
        Error2 = np.abs(np.mean(Mat -W@H))
  \<close>
\<close>

definition sgd_body :: "ndarray \<Rightarrow> real \<Rightarrow> real \<Rightarrow> sgd_state \<Rightarrow> error + sgd_state" where
  "sgd_body Mat eta lamda s =
     bind (lossfunc Mat (s_W s) (s_H s) lamda) (\<lambda>Loss.
     bind (grads Mat (s_W s) (s_H s) lamda) (\<lambda>(grad_w, grad_h).
     bind (np_sub (s_W s) (smul eta grad_w)) (\<lambda>W'.
     bind (np_sub (s_H s) (smul eta grad_h)) (\<lambda>H'.
     bind (mean_residual Mat W' H') (\<lambda>mr.
       Inr \<lparr>s_i = s_i s + 1,
            s_Error2 = fl_abs mr,
            s_w_history = s_w_history s @ [s_W s],
            s_h_history = s_h_history s @ [s_H s],
            s_loss_history = s_loss_history s @ [Loss],
            s_W = W', s_H = H'\<rparr>)))))"

text \<open>
  The test \<open>np.abs(Error1-Error2) < epsilon\<close>, where \<open>Error1\<close> is the value \<open>Error2\<close>
  had when the iteration began.
\<close>

definition converged :: "real \<Rightarrow> sgd_state \<Rightarrow> sgd_state \<Rightarrow> bool" where
  "converged epsilon s s' = fl_less (fl_abs (fl_sub (s_Error2 s) (s_Error2 s'))) epsilon"

text \<open>
  \<open>while(1): ... if ...: break\<close>. The loop has no other exit; a run that never leaves is
  the value \<open>None\<close>.
\<close>

partial_function (option) sgd_loop ::
  "ndarray \<Rightarrow> real \<Rightarrow> real \<Rightarrow> real \<Rightarrow> sgd_state \<Rightarrow> (error + sgd_state) option" where
  "sgd_loop Mat eta lamda epsilon s =
     (case sgd_body Mat eta lamda s of
        Inl e \<Rightarrow> Some (Inl e)
      | Inr s' \<Rightarrow> if converged epsilon s s' then Some (Inr s')
                  else sgd_loop Mat eta lamda epsilon s')"

text \<open>
  \<open>np.random.normal(scale=0.01, size=(r, c))\<close>: the sample drawn is a parameter \<open>g\<close>
  of the model; a negative dimension raises.
\<close>

definition random_normal :: "(nat \<Rightarrow> nat \<Rightarrow> real) \<Rightarrow> int \<Rightarrow> int \<Rightarrow> error + ndarray" where
  "random_normal g r c =
     (if r < 0 \<or> c < 0 then Inl ValueError
      else Inr \<lparr>nrows = nat r, ncols = nat c, ent = g\<rparr>)"

text \<open>
  The state at the head of the loop:
  \<^verbatim>\<open>
    i=0
    Error2=0
    w_history = []
    h_history = []
    loss_history = []
    m,n =Mat.shape
    W = np.abs(np.random.normal(scale=0.01, size=(m,num_topics)))
    H = np.abs(np.random.normal(scale=0.01, size=(num_topics,n)))
  \<close>
\<close>

definition sgd_init ::
  "ndarray \<Rightarrow> int \<Rightarrow> (nat \<Rightarrow> nat \<Rightarrow> real) \<Rightarrow> (nat \<Rightarrow> nat \<Rightarrow> real) \<Rightarrow> error + sgd_state" where
  "sgd_init Mat num_topics gW gH =
     (case shape Mat of (m, n) \<Rightarrow>
        bind (random_normal gW (int m) num_topics) (\<lambda>W0.
        bind (random_normal gH num_topics (int n)) (\<lambda>H0.
          Inr \<lparr>s_i = 0, s_Error2 = Fin 0, s_w_history = [], s_h_history = [], s_loss_history = [],
               s_W = np_abs W0, s_H = np_abs H0\<rparr>)))"

text \<open>\<open>return(W,H,loss_history,h_history,w_history,i,Error2)\<close>\<close>

definition sgd_return ::
  "sgd_state \<Rightarrow> ndarray \<times> ndarray \<times> real list \<times> ndarray list \<times> ndarray list \<times> nat \<times> pyfloat" where
  "sgd_return s = (s_W s, s_H s, s_loss_history s, s_h_history s, s_w_history s, s_i s, s_Error2 s)"

text \<open>
  \<open>def sgd(Mat,num_topics,eta=0.1,lamda=0.5,epsilon=1e-05)\<close>; the two further
  parameters are the samples drawn for \<open>W\<close> and \<open>H\<close>.
\<close>

definition sgd ::
  "ndarray \<Rightarrow> int \<Rightarrow> real \<Rightarrow> real \<Rightarrow> real \<Rightarrow> (nat \<Rightarrow> nat \<Rightarrow> real) \<Rightarrow> (nat \<Rightarrow> nat \<Rightarrow> real)
   \<Rightarrow> (error + ndarray \<times> ndarray \<times> real list \<times> ndarray list \<times> ndarray list \<times> nat \<times> pyfloat) option" where
  "sgd Mat num_topics eta lamda epsilon gW gH =
     (case sgd_init Mat num_topics gW gH of
        Inl e \<Rightarrow> Some (Inl e)
      | Inr s0 \<Rightarrow> map_option (map_sum id sgd_return) (sgd_loop Mat eta lamda epsilon s0))"

subsection \<open>The iterates of the loop\<close>

text \<open>
  \<open>sgd_iter Mat eta lamda k s\<close> is the state after \<open>k\<close> passes through the body from
  \<open>s\<close>, the exit test left aside. \<open>exit_test ... s k\<close> says that the test at the end of
  pass \<open>k + 1\<close> succeeds: the estimates of passes \<open>k\<close> and \<open>k + 1\<close> differ by less than
  \<open>epsilon\<close> (the estimate of pass 0 is the initial value of \<open>Error2\<close>).
\<close>

fun sgd_iter :: "ndarray \<Rightarrow> real \<Rightarrow> real \<Rightarrow> nat \<Rightarrow> sgd_state \<Rightarrow> error + sgd_state" where
  "sgd_iter Mat eta lamda 0 s = Inr s"
| "sgd_iter Mat eta lamda (Suc k) s = bind (sgd_body Mat eta lamda s) (sgd_iter Mat eta lamda k)"

definition exit_test :: "ndarray \<Rightarrow> real \<Rightarrow> real \<Rightarrow> real \<Rightarrow> sgd_state \<Rightarrow> nat \<Rightarrow> bool" where
  "exit_test Mat eta lamda epsilon s k =
     (case sgd_iter Mat eta lamda k s of
        Inl e \<Rightarrow> False
      | Inr a \<Rightarrow> (case sgd_body Mat eta lamda a of
                   Inl e \<Rightarrow> False
                 | Inr b \<Rightarrow> converged epsilon a b))"

section \<open>The routine on an explicit store\<close>

text \<open>
  A Python variable holds a reference to an array, and an array can be written through
  any reference to it. To state what \<open>sgd\<close> does to the array of its caller, the arrays
  live in a store: a list of arrays, an address being a position in it. The functions of
  this section are \<open>lossfunc\<close>, \<open>grads\<close> and \<open>sgd\<close> again, on addresses.

  Each numpy operation the routine calls (\<open>np.matmul\<close> and \<open>@\<close>, \<open>-\<close>, \<open>+\<close>, a float times
  an array, \<open>np.abs\<close>, \<open>np.random.normal\<close>) returns a new array, and the routine has no
  statement that writes into an existing one (no augmented assignment, no assignment to
  an index or a slice, no \<open>out=\<close> argument): the store is only ever extended. \<open>.T\<close> returns
  a view of the buffer of its argument; the routine only reads it, and it is given an
  address of its own here. Lists and numbers are held by value. When an operation
  raises, the result is the exception alone.
\<close>

type_synonym addr = nat
type_synonym store = "ndarray list"

text \<open>A new array object: the store grows by one array, whose address is returned.\<close>

definition alloc :: "store \<Rightarrow> ndarray \<Rightarrow> store \<times> addr" where
  "alloc st A = (st @ [A], length st)"

text \<open>
  \<open>new_array\<close> stores the result of an operation that creates an array, unless it raised.
  \<open>op1\<close> and \<open>op2\<close> are the operations of one and of two array arguments, which read
  their arguments in the store.
\<close>

definition new_array :: "store \<Rightarrow> error + ndarray \<Rightarrow> error + store \<times> addr" where
  "new_array st r = bind r (\<lambda>A. Inr (alloc st A))"

definition op1 :: "(ndarray \<Rightarrow> ndarray) \<Rightarrow> store \<Rightarrow> addr \<Rightarrow> error + store \<times> addr" where
  "op1 f st a = new_array st (Inr (f (st ! a)))"

definition op2 ::
  "(ndarray \<Rightarrow> ndarray \<Rightarrow> error + ndarray) \<Rightarrow> store \<Rightarrow> addr \<Rightarrow> addr \<Rightarrow> error + store \<times> addr" where
  "op2 f st a b = new_array st (f (st ! a) (st ! b))"

text \<open>\<open>lossfunc\<close>, \<open>grads\<close> and the body of the loop, statement by statement, on addresses.\<close>

definition lossfunc_st :: "store \<Rightarrow> addr \<Rightarrow> addr \<Rightarrow> addr \<Rightarrow> real \<Rightarrow> error + store \<times> real" where
  "lossfunc_st st Mat W H lamda =
     bind (op2 matmul st W H) (\<lambda>(st1, Mat_pred).
     bind (op2 np_sub st1 Mat Mat_pred) (\<lambda>(st2, R1).
     bind (op2 np_sub st2 Mat Mat_pred) (\<lambda>(st3, R2).
       Inr (st3, 0.5 * np_square (linalg_norm (st3 ! R1))
                 + 0.5 * lamda * (np_square (linalg_norm (st3 ! W))
                                  + np_square (linalg_norm (st3 ! R2)))))))"

definition grads_st ::
  "store \<Rightarrow> addr \<Rightarrow> addr \<Rightarrow> addr \<Rightarrow> real \<Rightarrow> error + store \<times> addr \<times> addr" where
  "grads_st st Mat W H lamda =
     bind (op2 matmul st W H) (\<lambda>(st1, P1).
     bind (op2 np_sub st1 P1 Mat) (\<lambda>(st2, D1).
     bind (op1 transpose_arr st2 H) (\<lambda>(st3, HT).
     bind (op2 matmul st3 D1 HT) (\<lambda>(st4, G1).
     bind (op1 (smul lamda) st4 W) (\<lambda>(st5, LW).
     bind (op2 np_add st5 G1 LW) (\<lambda>(st6, grad_w).
     bind (op1 transpose_arr st6 W) (\<lambda>(st7, WT).
     bind (op2 matmul st7 W H) (\<lambda>(st8, P2).
     bind (op2 np_sub st8 P2 Mat) (\<lambda>(st9, D2).
     bind (op2 matmul st9 WT D2) (\<lambda>(st10, G2).
     bind (op1 (smul lamda) st10 H) (\<lambda>(st11, LH).
     bind (op2 np_add st11 G2 LH) (\<lambda>(st12, grad_h).
       Inr (st12, grad_w, grad_h)))))))))))))"

text \<open>
  The variables of \<open>sgd\<close>; \<open>W\<close>, \<open>H\<close> and the elements of the two history lists are
  references.
\<close>

record sgd_refs =
  r_i :: nat
  r_Error2 :: pyfloat
  r_w_history :: "addr list"
  r_h_history :: "addr list"
  r_loss_history :: "real list"
  r_W :: addr
  r_H :: addr

definition sgd_body_st ::
  "store \<Rightarrow> addr \<Rightarrow> real \<Rightarrow> real \<Rightarrow> sgd_refs \<Rightarrow> error + store \<times> sgd_refs" where
  "sgd_body_st st Mat eta lamda v =
     bind (lossfunc_st st Mat (r_W v) (r_H v) lamda) (\<lambda>(st1, Loss).
     bind (grads_st st1 Mat (r_W v) (r_H v) lamda) (\<lambda>(st2, grad_w, grad_h).
     bind (op1 (smul eta) st2 grad_w) (\<lambda>(st3, EW).
     bind (op2 np_sub st3 (r_W v) EW) (\<lambda>(st4, W').
     bind (op1 (smul eta) st4 grad_h) (\<lambda>(st5, EH).
     bind (op2 np_sub st5 (r_H v) EH) (\<lambda>(st6, H').
     bind (op2 matmul st6 W' H') (\<lambda>(st7, P).
     bind (op2 np_sub st7 Mat P) (\<lambda>(st8, R).
       Inr (st8, \<lparr>r_i = r_i v + 1,
                  r_Error2 = fl_abs (np_mean (st8 ! R)),
                  r_w_history = r_w_history v @ [r_W v],
                  r_h_history = r_h_history v @ [r_H v],
                  r_loss_history = r_loss_history v @ [Loss],
                  r_W = W', r_H = H'\<rparr>)))))))))"

partial_function (option) sgd_loop_st ::
  "addr \<Rightarrow> real \<Rightarrow> real \<Rightarrow> real \<Rightarrow> store \<Rightarrow> sgd_refs \<Rightarrow> (error + store \<times> sgd_refs) option" where
  "sgd_loop_st Mat eta lamda epsilon st v =
     (case sgd_body_st st Mat eta lamda v of
        Inl e \<Rightarrow> Some (Inl e)
      | Inr (st', v') \<Rightarrow>
          if fl_less (fl_abs (fl_sub (r_Error2 v) (r_Error2 v'))) epsilon then Some (Inr (st', v'))
          else sgd_loop_st Mat eta lamda epsilon st' v')"

definition sgd_init_st ::
  "store \<Rightarrow> addr \<Rightarrow> int \<Rightarrow> (nat \<Rightarrow> nat \<Rightarrow> real) \<Rightarrow> (nat \<Rightarrow> nat \<Rightarrow> real) \<Rightarrow> error + store \<times> sgd_refs" where
  "sgd_init_st st Mat num_topics gW gH =
     (case shape (st ! Mat) of (m, n) \<Rightarrow>
        bind (new_array st (random_normal gW (int m) num_topics)) (\<lambda>(st1, N1).
        bind (op1 np_abs st1 N1) (\<lambda>(st2, W0).
        bind (new_array st2 (random_normal gH num_topics (int n))) (\<lambda>(st3, N2).
        bind (op1 np_abs st3 N2) (\<lambda>(st4, H0).
          Inr (st4, \<lparr>r_i = 0, r_Error2 = Fin 0, r_w_history = [], r_h_history = [],
                     r_loss_history = [], r_W = W0, r_H = H0\<rparr>))))))"

definition sgd_return_st ::
  "store \<times> sgd_refs \<Rightarrow> store \<times> addr \<times> addr \<times> real list \<times> addr list \<times> addr list \<times> nat \<times> pyfloat" where
  "sgd_return_st x = (case x of (st, v) \<Rightarrow>
     (st, r_W v, r_H v, r_loss_history v, r_h_history v, r_w_history v, r_i v, r_Error2 v))"

definition sgd_st ::
  "store \<Rightarrow> addr \<Rightarrow> int \<Rightarrow> real \<Rightarrow> real \<Rightarrow> real \<Rightarrow> (nat \<Rightarrow> nat \<Rightarrow> real) \<Rightarrow> (nat \<Rightarrow> nat \<Rightarrow> real)
   \<Rightarrow> (error + store \<times> addr \<times> addr \<times> real list \<times> addr list \<times> addr list \<times> nat \<times> pyfloat) option" where
  "sgd_st st Mat num_topics eta lamda epsilon gW gH =
     (case sgd_init_st st Mat num_topics gW gH of
        Inl e \<Rightarrow> Some (Inl e)
      | Inr (st0, v0) \<Rightarrow>
          map_option (map_sum id sgd_return_st) (sgd_loop_st Mat eta lamda epsilon st0 v0))"

text \<open>
  The values behind the references of a state, and the condition that its references
  point into the store.
\<close>

definition deref :: "store \<Rightarrow> sgd_refs \<Rightarrow> sgd_state" where
  "deref st v =
     \<lparr>s_i = r_i v, s_Error2 = r_Error2 v,
      s_w_history = map (\<lambda>p. st ! p) (r_w_history v),
      s_h_history = map (\<lambda>p. st ! p) (r_h_history v),
      s_loss_history = r_loss_history v,
      s_W = st ! r_W v, s_H = st ! r_H v\<rparr>"

definition valid_refs :: "store \<Rightarrow> sgd_refs \<Rightarrow> bool" where
  "valid_refs st v =
     (r_W v < length st \<and> r_H v < length st
      \<and> (\<forall>p\<in>set (r_w_history v). p < length st) \<and> (\<forall>p\<in>set (r_h_history v). p < length st))"

section \<open>The formulas of the specification\<close>

text \<open>
  The specification speaks of matrices \<open>V\<close> (m by n), \<open>W\<close> (m by d) and \<open>H\<close> (d by n).
  Its formulas are written here entry by entry, with sums over the index ranges, and do
  not use the array operations above.
\<close>

text \<open>Entry \<open>(i, j)\<close> of the product \<open>WH\<close> and of the residual \<open>V - WH\<close>.\<close>

definition entry_WH :: "ndarray \<Rightarrow> ndarray \<Rightarrow> nat \<Rightarrow> nat \<Rightarrow> real" where
  "entry_WH W H i j = (\<Sum>k<ncols W. ent W i k * ent H k j)"

definition residual_entry :: "ndarray \<Rightarrow> ndarray \<Rightarrow> ndarray \<Rightarrow> nat \<Rightarrow> nat \<Rightarrow> real" where
  "residual_entry V W H i j = ent V i j - entry_WH W H i j"

text \<open>The squared Frobenius norm of an \<open>m\<close> by \<open>n\<close> matrix with entries \<open>f i j\<close>.\<close>

definition frob_sq :: "nat \<Rightarrow> nat \<Rightarrow> (nat \<Rightarrow> nat \<Rightarrow> real) \<Rightarrow> real" where
  "frob_sq m n f = (\<Sum>i<m. \<Sum>j<n. (f i j)\<^sup>2)"

text \<open>
  The objective of the specification,
  \<open>F(W,H) = 1/2 ||V - WH||^2 + (lambda/2) (||W||^2 + ||H||^2)\<close>.
\<close>

definition objective_F :: "ndarray \<Rightarrow> ndarray \<Rightarrow> ndarray \<Rightarrow> real \<Rightarrow> real" where
  "objective_F V W H lamda =
     1/2 * frob_sq (nrows V) (ncols V) (residual_entry V W H)
     + lamda/2 * (frob_sq (nrows W) (ncols W) (ent W) + frob_sq (nrows H) (ncols H) (ent H))"

text \<open>
  Entry \<open>(i, k)\<close> of \<open>(WH - V) H\<^sup>T + lambda W\<close> and entry \<open>(k, j)\<close> of
  \<open>W\<^sup>T (WH - V) + lambda H\<close>.
\<close>

definition grad_W_entry :: "ndarray \<Rightarrow> ndarray \<Rightarrow> ndarray \<Rightarrow> real \<Rightarrow> nat \<Rightarrow> nat \<Rightarrow> real" where
  "grad_W_entry V W H lamda i k =
     (\<Sum>j<ncols H. (entry_WH W H i j - ent V i j) * ent H k j) + lamda * ent W i k"

definition grad_H_entry :: "ndarray \<Rightarrow> ndarray \<Rightarrow> ndarray \<Rightarrow> real \<Rightarrow> nat \<Rightarrow> nat \<Rightarrow> real" where
  "grad_H_entry V W H lamda k j =
     (\<Sum>i<nrows W. ent W i k * (entry_WH W H i j - ent V i j)) + lamda * ent H k j"

text \<open>The signed mean of the entries of \<open>V - WH\<close>.\<close>

definition signed_mean_residual :: "ndarray \<Rightarrow> ndarray \<Rightarrow> ndarray \<Rightarrow> real" where
  "signed_mean_residual V W H =
     (\<Sum>i<nrows V. \<Sum>j<ncols V. residual_entry V W H i j) / real (nrows V * ncols V)"

text \<open>
  The error estimate of pass \<open>t\<close> of the loop started in state \<open>s\<close>: for \<open>t = 0\<close> the
  value \<open>Error2\<close> has before the loop, and for \<open>t > 0\<close> the absolute value of the mean of
  the entries of \<open>V - WH\<close> at the factors after \<open>t\<close> passes (NaN when \<open>V\<close> has no entry or
  a pass raised).
\<close>

definition estimate :: "ndarray \<Rightarrow> real \<Rightarrow> real \<Rightarrow> sgd_state \<Rightarrow> nat \<Rightarrow> pyfloat" where
  "estimate V eta lamda s t =
     (if t = 0 then s_Error2 s
      else case sgd_iter V eta lamda t s of
             Inl e \<Rightarrow> NaN
           | Inr a \<Rightarrow> if nrows V * ncols V = 0 then NaN
                      else Fin \<bar>signed_mean_residual V (s_W a) (s_H a)\<bar>)"

text \<open>All entries are nonnegative.\<close>

definition nonneg :: "ndarray \<Rightarrow> bool" where
  "nonneg A = list_all (\<lambda>i. list_all (\<lambda>j. 0 \<le> ent A i j) [0..<ncols A]) [0..<nrows A]"

section \<open>Concrete inputs\<close>

text \<open>A sample of \<open>np.random.normal\<close> whose draws are written as a list of rows.\<close>

definition sample_rows :: "real list list \<Rightarrow> nat \<Rightarrow> nat \<Rightarrow> real" where
  "sample_rows rs i j = rs ! i ! j"

text \<open>The state at the head of the loop when the factors drawn are \<open>W0\<close> and \<open>H0\<close>.\<close>

definition head_state :: "ndarray \<Rightarrow> ndarray \<Rightarrow> sgd_state" where
  "head_state W0 H0 =
     \<lparr>s_i = 0, s_Error2 = Fin 0, s_w_history = [], s_h_history = [], s_loss_history = [],
      s_W = W0, s_H = H0\<rparr>"

text \<open>
  The states of the run from \<open>V = [[0]]\<close> with \<open>W = H = [[w]]\<close>, \<open>w\<^sup>2 \<ge> 4\<close>, in which the
  estimate is at most \<open>w\<^sup>2\<close>.
\<close>

definition diverging :: "sgd_state \<Rightarrow> bool" where
  "diverging a =
     (shape (s_W a) = (1, 1) \<and> shape (s_H a) = (1, 1) \<and> ent (s_W a) 0 0 = ent (s_H a) 0 0
      \<and> 4 \<le> (ent (s_W a) 0 0)\<^sup>2
      \<and> (case s_Error2 a of Fin e \<Rightarrow> 0 \<le> e \<and> e \<le> (ent (s_W a) 0 0)\<^sup>2 | NaN \<Rightarrow> False))"

text \<open>The loss and the signed mean of the residual at the factors of a state.\<close>

definition loss_at :: "ndarray \<Rightarrow> real \<Rightarrow> sgd_state \<Rightarrow> error + real" where
  "loss_at Mat lamda s = lossfunc Mat (s_W s) (s_H s) lamda"

definition mean_residual_at :: "ndarray \<Rightarrow> sgd_state \<Rightarrow> error + pyfloat" where
  "mean_residual_at Mat s = mean_residual Mat (s_W s) (s_H s)"

text \<open>
  The loss computed by \<open>lossfunc\<close> for \<open>V = [[1]]\<close>, \<open>W = [[1]]\<close> and \<open>lamda = 1/2\<close>, as a
  function of the one entry \<open>h\<close> of \<open>H\<close>.
\<close>

definition loss_along_H :: "real \<Rightarrow> real" where
  "loss_along_H h =
     (case lossfunc (of_rows [[1]]) (of_rows [[1]]) (of_rows [[h]]) (1/2) of
        Inl e \<Rightarrow> 0
      | Inr x \<Rightarrow> x)"

text \<open>The objective of the specification along the same line.\<close>

definition objective_along_H :: "real \<Rightarrow> real" where
  "objective_along_H h = objective_F (of_rows [[1]]) (of_rows [[1]]) (of_rows [[h]]) (1/2)"

text \<open>The entry \<open>(0, 0)\<close> of the second component of \<open>grads\<close>, the gradient for \<open>H\<close>.\<close>

definition grad_h_00 :: "error + ndarray \<times> ndarray \<Rightarrow> error + real" where
  "grad_h_00 r = map_sum id (\<lambda>(gw, gh). ent gh 0 0) r"

section \<open>Properties of the array operations\<close>

lemma bind_Inr [simp]: "bind (Inr a) f = f a"
  by (simp add: bind_def)

lemma bind_Inl [simp]: "bind (Inl e) f = Inl e"
  by (simp add: bind_def)

lemma bind_eq_Inr: "bind x f = Inr y \<longleftrightarrow> (\<exists>a. x = Inr a \<and> f a = Inr y)"
  by (cases x) simp_all

lemma bidx_less [simp]: "i < n \<Longrightarrow> bidx n i = i"
  by (simp add: bidx_def)

lemma bidx_bidx [simp]: "bidx n (bidx n i) = bidx n i"
  by (simp add: bidx_def)

lemma bdim_same [simp]: "bdim a a = Some a"
  by (simp add: bdim_def)

lemma matmul_ok:
  "ncols A = nrows B \<Longrightarrow>
   matmul A B = Inr \<lparr>nrows = nrows A, ncols = ncols B,
                     ent = (\<lambda>i j. \<Sum>k<ncols A. ent A i k * ent B k j)\<rparr>"
  by (simp add: matmul_def)

lemma broadcast2_same:
  "nrows A = nrows B \<Longrightarrow> ncols A = ncols B \<Longrightarrow>
   broadcast2 f A B =
     Inr \<lparr>nrows = nrows A, ncols = ncols A,
          ent = (\<lambda>i j. f (ent A (bidx (nrows A) i) (bidx (ncols A) j))
                         (ent B (bidx (nrows A) i) (bidx (ncols A) j)))\<rparr>"
  by (simp add: broadcast2_def)

text \<open>\<open>np.square(np.linalg.norm(A))\<close> is the sum of the squares of the entries.\<close>

lemma square_norm: "np_square (linalg_norm A) = frob_sq (nrows A) (ncols A) (ent A)"
proof -
  have "0 \<le> (\<Sum>i<nrows A. \<Sum>j<ncols A. (ent A i j)\<^sup>2)"
    by (intro sum_nonneg) simp
  then show ?thesis
    by (simp add: np_square_def linalg_norm_def frob_sq_def)
qed

lemma frob_sq_cong:
  "m = m' \<Longrightarrow> n = n' \<Longrightarrow> (\<And>i j. i < m' \<Longrightarrow> j < n' \<Longrightarrow> f i j = g i j) \<Longrightarrow>
   frob_sq m n f = frob_sq m' n' g"
  unfolding frob_sq_def by (intro sum.cong) simp_all

section \<open>The loss, the gradients and one pass of the loop on well-shaped factors\<close>

lemma lossfunc_value:
  assumes "nrows W = nrows Mat" "ncols W = nrows H" "ncols H = ncols Mat"
  shows "lossfunc Mat W H lamda =
     Inr (1/2 * frob_sq (nrows Mat) (ncols Mat) (residual_entry Mat W H)
          + lamda/2 * (frob_sq (nrows W) (ncols W) (ent W)
                       + frob_sq (nrows Mat) (ncols Mat) (residual_entry Mat W H)))"
  using assms
  by (simp add: lossfunc_def matmul_ok np_sub_def broadcast2_same square_norm entry_WH_def
        residual_entry_def cong: frob_sq_cong)

lemma grads_value:
  assumes "nrows W = nrows Mat" "ncols W = nrows H" "ncols H = ncols Mat"
  shows "\<exists>gw gh. grads Mat W H lamda = Inr (gw, gh)
    \<and> nrows gw = nrows W \<and> ncols gw = ncols W \<and> nrows gh = nrows H \<and> ncols gh = ncols H
    \<and> (\<forall>i k. i < nrows W \<longrightarrow> k < ncols W \<longrightarrow> ent gw i k = grad_W_entry Mat W H lamda i k)
    \<and> (\<forall>k j. k < nrows H \<longrightarrow> j < ncols H \<longrightarrow> ent gh k j = grad_H_entry Mat W H lamda k j)"
  using assms
  by (simp add: grads_def matmul_ok np_sub_def np_add_def broadcast2_same smul_def
        transpose_arr_def entry_WH_def grad_W_entry_def grad_H_entry_def)

lemma mean_residual_value:
  assumes "nrows W = nrows Mat" "ncols W = nrows H" "ncols H = ncols Mat"
  shows "mean_residual Mat W H =
     Inr (if nrows Mat * ncols Mat = 0 then NaN else Fin (signed_mean_residual Mat W H))"
  using assms
  by (simp add: mean_residual_def matmul_ok np_sub_def broadcast2_same np_mean_def total_def
        signed_mean_residual_def entry_WH_def residual_entry_def)

lemma sgd_body_value:
  assumes "nrows (s_W s) = nrows Mat" "ncols (s_W s) = nrows (s_H s)" "ncols (s_H s) = ncols Mat"
  shows "\<exists>s' L. sgd_body Mat eta lamda s = Inr s'
    \<and> nrows (s_W s') = nrows (s_W s) \<and> ncols (s_W s') = ncols (s_W s)
    \<and> nrows (s_H s') = nrows (s_H s) \<and> ncols (s_H s') = ncols (s_H s)
    \<and> (\<forall>i k. i < nrows (s_W s) \<longrightarrow> k < ncols (s_W s) \<longrightarrow>
          ent (s_W s') i k = ent (s_W s) i k - eta * grad_W_entry Mat (s_W s) (s_H s) lamda i k)
    \<and> (\<forall>k j. k < nrows (s_H s) \<longrightarrow> j < ncols (s_H s) \<longrightarrow>
          ent (s_H s') k j = ent (s_H s) k j - eta * grad_H_entry Mat (s_W s) (s_H s) lamda k j)
    \<and> s_i s' = s_i s + 1
    \<and> s_w_history s' = s_w_history s @ [s_W s]
    \<and> s_h_history s' = s_h_history s @ [s_H s]
    \<and> lossfunc Mat (s_W s) (s_H s) lamda = Inr L
    \<and> s_loss_history s' = s_loss_history s @ [L]
    \<and> s_Error2 s' = (if nrows Mat * ncols Mat = 0 then NaN
                      else Fin \<bar>signed_mean_residual Mat (s_W s') (s_H s')\<bar>)"
proof -
  obtain gw gh where g: "grads Mat (s_W s) (s_H s) lamda = Inr (gw, gh)"
    and sh: "nrows gw = nrows (s_W s)" "ncols gw = ncols (s_W s)"
            "nrows gh = nrows (s_H s)" "ncols gh = ncols (s_H s)"
    and gw: "\<And>i k. i < nrows (s_W s) \<Longrightarrow> k < ncols (s_W s) \<Longrightarrow>
               ent gw i k = grad_W_entry Mat (s_W s) (s_H s) lamda i k"
    and gh: "\<And>k j. k < nrows (s_H s) \<Longrightarrow> j < ncols (s_H s) \<Longrightarrow>
               ent gh k j = grad_H_entry Mat (s_W s) (s_H s) lamda k j"
    using grads_value [OF assms, of lamda] by blast
  obtain L where L: "lossfunc Mat (s_W s) (s_H s) lamda = Inr L"
    using lossfunc_value [OF assms] by blast
  define W' where "W' = \<lparr>nrows = nrows (s_W s), ncols = ncols (s_W s),
     ent = (\<lambda>i j. ent (s_W s) (bidx (nrows (s_W s)) i) (bidx (ncols (s_W s)) j)
                  - ent (smul eta gw) (bidx (nrows (s_W s)) i) (bidx (ncols (s_W s)) j))\<rparr>"
  define H' where "H' = \<lparr>nrows = nrows (s_H s), ncols = ncols (s_H s),
     ent = (\<lambda>i j. ent (s_H s) (bidx (nrows (s_H s)) i) (bidx (ncols (s_H s)) j)
                  - ent (smul eta gh) (bidx (nrows (s_H s)) i) (bidx (ncols (s_H s)) j))\<rparr>"
  have W': "np_sub (s_W s) (smul eta gw) = Inr W'"
    unfolding np_sub_def W'_def by (rule broadcast2_same) (simp_all add: smul_def sh)
  have H': "np_sub (s_H s) (smul eta gh) = Inr H'"
    unfolding np_sub_def H'_def by (rule broadcast2_same) (simp_all add: smul_def sh)
  have shW: "nrows W' = nrows Mat" "ncols W' = nrows H'" "ncols H' = ncols Mat"
    using assms by (simp_all add: W'_def H'_def)
  define s' where "s' = \<lparr>s_i = s_i s + 1,
          s_Error2 = fl_abs (if nrows Mat * ncols Mat = 0 then NaN
                             else Fin (signed_mean_residual Mat W' H')),
          s_w_history = s_w_history s @ [s_W s],
          s_h_history = s_h_history s @ [s_H s],
          s_loss_history = s_loss_history s @ [L],
          s_W = W', s_H = H'\<rparr>"
  have body: "sgd_body Mat eta lamda s = Inr s'"
    by (simp add: sgd_body_def L g W' H' mean_residual_value [OF shW] s'_def)
  have "ent (s_W s') i k = ent (s_W s) i k - eta * grad_W_entry Mat (s_W s) (s_H s) lamda i k"
    if "i < nrows (s_W s)" "k < ncols (s_W s)" for i k
    using that by (simp add: s'_def W'_def smul_def gw)
  moreover have "ent (s_H s') k j = ent (s_H s) k j - eta * grad_H_entry Mat (s_W s) (s_H s) lamda k j"
    if "k < nrows (s_H s)" "j < ncols (s_H s)" for k j
    using that by (simp add: s'_def H'_def smul_def gh)
  moreover have "s_Error2 s' = (if nrows Mat * ncols Mat = 0 then NaN
                      else Fin \<bar>signed_mean_residual Mat (s_W s') (s_H s')\<bar>)"
    by (simp add: s'_def)
  moreover have "nrows (s_W s') = nrows (s_W s)" "ncols (s_W s') = ncols (s_W s)"
    "nrows (s_H s') = nrows (s_H s)" "ncols (s_H s') = ncols (s_H s)"
    "s_i s' = s_i s + 1" "s_w_history s' = s_w_history s @ [s_W s]"
    "s_h_history s' = s_h_history s @ [s_H s]" "s_loss_history s' = s_loss_history s @ [L]"
    by (simp_all add: s'_def W'_def H'_def)
  ultimately show ?thesis
    using body L by blast
qed

text \<open>What a pass that does not raise has computed, whatever the shapes.\<close>

lemma sgd_body_Inr:
  assumes "sgd_body Mat eta lamda s = Inr s'"
  shows "\<exists>L gw gh W' H' mr.
     lossfunc Mat (s_W s) (s_H s) lamda = Inr L \<and> grads Mat (s_W s) (s_H s) lamda = Inr (gw, gh)
     \<and> np_sub (s_W s) (smul eta gw) = Inr W' \<and> np_sub (s_H s) (smul eta gh) = Inr H'
     \<and> mean_residual Mat W' H' = Inr mr
     \<and> s' = \<lparr>s_i = s_i s + 1, s_Error2 = fl_abs mr,
            s_w_history = s_w_history s @ [s_W s], s_h_history = s_h_history s @ [s_H s],
            s_loss_history = s_loss_history s @ [L], s_W = W', s_H = H'\<rparr>"
  using assms by (auto simp: sgd_body_def bind_eq_Inr split: prod.splits)

section \<open>Evaluation on concrete arrays\<close>

lemmas eval_arr = of_rows_def matmul_def np_sub_def np_add_def broadcast2_def bdim_def bidx_def
  smul_def transpose_arr_def np_abs_def np_mean_def total_def shape_def frob_sq_def
  entry_WH_def residual_entry_def numeral_2_eq_2

lemmas eval_body = sgd_body_def lossfunc_def grads_def mean_residual_def head_state_def square_norm

section \<open>The loss function\<close>

lemma loss_along_H_value: "loss_along_H h = 3/4 * (1 - h)\<^sup>2 + 1/4"
  by (simp add: loss_along_H_def lossfunc_def square_norm eval_arr power2_eq_square algebra_simps)

lemma loss_along_H_deriv: "(loss_along_H has_real_derivative 0) (at 1)"
proof -
  have "((\<lambda>h. 3/4 * (1 - h)\<^sup>2 + 1/4) has_real_derivative 0) (at (1::real))"
    by (auto intro!: derivative_eq_intros)
  moreover have "loss_along_H = (\<lambda>h. 3/4 * (1 - h)\<^sup>2 + 1/4)"
    by (rule ext) (rule loss_along_H_value)
  ultimately show ?thesis by simp
qed

text \<open>
  C3. For \<open>V\<close> of shape (m, n), \<open>W\<close> of shape (m, d) and \<open>H\<close> of shape (d, n) and every
  \<open>lamda\<close>, \<open>lossfunc\<close> returns
  \<open>1/2 ||V - WH||^2 + (lamda/2) (||W||^2 + ||V - WH||^2)\<close>: the term weighted by
  \<open>lamda\<close> holds the squared norm of the residual where the objective has the squared norm
  of \<open>H\<close>. The value does not agree with the gradients of \<open>grads\<close>: at
  \<open>V = W = H = [[1]]\<close> and \<open>lamda = 1/2\<close> the derivative of the computed loss in the entry
  of \<open>H\<close> is 0, and the gradient that \<open>grads\<close> returns for \<open>H\<close> is 1/2.
\<close>

theorem lossfunc_reuses_residual:
  assumes "shape Mat = (m, n)" "shape W = (m, d)" "shape H = (d, n)"
  shows "lossfunc Mat W H lamda =
           Inr (1/2 * frob_sq m n (residual_entry Mat W H)
                + lamda/2 * (frob_sq m d (ent W) + frob_sq m n (residual_entry Mat W H)))
         \<and> (loss_along_H has_real_derivative 0) (at 1)
         \<and> grad_h_00 (grads (of_rows [[1]]) (of_rows [[1]]) (of_rows [[1]]) (1/2)) = Inr (1/2)"
proof (intro conjI)
  show "lossfunc Mat W H lamda =
           Inr (1/2 * frob_sq m n (residual_entry Mat W H)
                + lamda/2 * (frob_sq m d (ent W) + frob_sq m n (residual_entry Mat W H)))"
    using assms lossfunc_value [of W Mat H lamda] by (simp add: shape_def)
  show "(loss_along_H has_real_derivative 0) (at 1)"
    by (rule loss_along_H_deriv)
  show "grad_h_00 (grads (of_rows [[1]]) (of_rows [[1]]) (of_rows [[1]]) (1/2)) = Inr (1/2)"
    by (simp add: grad_h_00_def grads_def eval_arr)
qed

theorem lossfunc_reuses_residual_witness:
  "shape (of_rows [[1, 2], [3, 4]]) = (2, 2) \<and> shape (of_rows [[1], [2]]) = (2, 1)
   \<and> shape (of_rows [[1, 1]]) = (1, 2)
   \<and> lossfunc (of_rows [[1, 2], [3, 4]]) (of_rows [[1], [2]]) (of_rows [[1, 1]]) (1/2) = Inr (23/4)"
  using lossfunc_reuses_residual [of "of_rows [[1, 2], [3, 4]]" 2 2 "of_rows [[1], [2]]" 1
      "of_rows [[1, 1]]" "1/2"]
  by (simp add: eval_arr)

text \<open>
  C2. The claim: the loss recorded in each iteration is the objective
  \<open>F(W,H) = 1/2 ||V - WH||^2 + (lamda/2) (||W||^2 + ||H||^2)\<close> at the current factors.
  The notebook states this objective above the code and \<open>grads\<close> is its gradient, but
  \<open>lossfunc\<close> adds \<open>||V - WH||^2\<close> where the objective has \<open>||H||^2\<close>. At
  \<open>V = W = H = [[1]]\<close> and \<open>lamda = 1/2\<close> the function returns 1/4, the first pass of the
  loop records 1/4, and the objective is 1/2. There the derivative of the objective in
  the entry of \<open>H\<close> is 1/2, the value \<open>grads\<close> returns.
\<close>

theorem lossfunc_differs_from_objective:
  "lossfunc (of_rows [[1]]) (of_rows [[1]]) (of_rows [[1]]) (1/2) = Inr (1/4)
   \<and> objective_F (of_rows [[1]]) (of_rows [[1]]) (of_rows [[1]]) (1/2) = 1/2
   \<and> map_sum id s_loss_history
        (sgd_body (of_rows [[1]]) (1/10) (1/2) (head_state (of_rows [[1]]) (of_rows [[1]])))
      = Inr [1/4]
   \<and> (objective_along_H has_real_derivative 1/2) (at 1)
   \<and> grad_h_00 (grads (of_rows [[1]]) (of_rows [[1]]) (of_rows [[1]]) (1/2)) = Inr (1/2)"
proof -
  have "lossfunc (of_rows [[1]]) (of_rows [[1]]) (of_rows [[1]]) (1/2) = Inr (1/4)
   \<and> objective_F (of_rows [[1]]) (of_rows [[1]]) (of_rows [[1]]) (1/2) = 1/2
   \<and> map_sum id s_loss_history
        (sgd_body (of_rows [[1]]) (1/10) (1/2) (head_state (of_rows [[1]]) (of_rows [[1]])))
      = Inr [1/4]"
    by (simp add: eval_body eval_arr objective_F_def power2_eq_square)
  moreover have "(objective_along_H has_real_derivative 1/2) (at 1)"
  proof -
    have "((\<lambda>h. 1/2 * (1 - h)\<^sup>2 + 1/4 * (1 + h\<^sup>2)) has_real_derivative 1/2) (at (1::real))"
      by (auto intro!: derivative_eq_intros)
    moreover have "objective_along_H = (\<lambda>h. 1/2 * (1 - h)\<^sup>2 + 1/4 * (1 + h\<^sup>2))"
      by (rule ext) (simp add: objective_along_H_def objective_F_def eval_arr)
    ultimately show ?thesis by simp
  qed
  moreover have "grad_h_00 (grads (of_rows [[1]]) (of_rows [[1]]) (of_rows [[1]]) (1/2)) = Inr (1/2)"
    by (simp add: grad_h_00_def grads_def eval_arr)
  ultimately show ?thesis by blast
qed

section \<open>One pass of the loop\<close>

text \<open>
  C4. For \<open>V\<close> of shape (m, n) and factors of shapes (m, d) and (d, n), one pass of the
  loop gives \<open>W' = W - eta ((WH - V) H\<^sup>T + lamda W)\<close> and
  \<open>H' = H - eta (W\<^sup>T (WH - V) + lamda H)\<close>, entry by entry, where \<open>W\<close> and \<open>H\<close> on the
  right are the factors the pass began with, in both updates.
\<close>

theorem update_is_simultaneous:
  assumes "shape Mat = (m, n)" "shape (s_W s) = (m, d)" "shape (s_H s) = (d, n)"
  shows "\<exists>s'. sgd_body Mat eta lamda s = Inr s'
     \<and> shape (s_W s') = (m, d) \<and> shape (s_H s') = (d, n)
     \<and> (\<forall>i<m. \<forall>k<d. ent (s_W s') i k
            = ent (s_W s) i k - eta * grad_W_entry Mat (s_W s) (s_H s) lamda i k)
     \<and> (\<forall>k<d. \<forall>j<n. ent (s_H s') k j
            = ent (s_H s) k j - eta * grad_H_entry Mat (s_W s) (s_H s) lamda k j)"
proof -
  have sh: "nrows (s_W s) = nrows Mat" "ncols (s_W s) = nrows (s_H s)" "ncols (s_H s) = ncols Mat"
    using assms by (simp_all add: shape_def)
  from sgd_body_value [OF sh, of eta lamda] obtain s' where
    "sgd_body Mat eta lamda s = Inr s'"
    "nrows (s_W s') = nrows (s_W s)" "ncols (s_W s') = ncols (s_W s)"
    "nrows (s_H s') = nrows (s_H s)" "ncols (s_H s') = ncols (s_H s)"
    "\<forall>i k. i < nrows (s_W s) \<longrightarrow> k < ncols (s_W s) \<longrightarrow>
       ent (s_W s') i k = ent (s_W s) i k - eta * grad_W_entry Mat (s_W s) (s_H s) lamda i k"
    "\<forall>k j. k < nrows (s_H s) \<longrightarrow> j < ncols (s_H s) \<longrightarrow>
       ent (s_H s') k j = ent (s_H s) k j - eta * grad_H_entry Mat (s_W s) (s_H s) lamda k j"
    by blast
  then show ?thesis
    using assms by (intro exI [of _ s']) (simp add: shape_def)
qed

text \<open>
  At \<open>V = [[0]]\<close>, \<open>W = [[1]]\<close>, \<open>H = [[2]]\<close>, \<open>eta = 1\<close>, \<open>lamda = 0\<close> the pass gives
  \<open>W' = [[-3]]\<close> and \<open>H' = [[0]]\<close>; an update of \<open>H\<close> that read the new \<open>W'\<close> would give
  \<open>[[-16]]\<close>.
\<close>

theorem update_is_simultaneous_witness:
  "shape (of_rows [[0]]) = (1, 1) \<and> shape (of_rows [[1]]) = (1, 1) \<and> shape (of_rows [[2]]) = (1, 1)
   \<and> (\<exists>s'. sgd_body (of_rows [[0]]) 1 0 (head_state (of_rows [[1]]) (of_rows [[2]])) = Inr s'
         \<and> ent (s_W s') 0 0 = - 3 \<and> ent (s_H s') 0 0 = 0)"
  using update_is_simultaneous [of "of_rows [[0]]" 1 1 "head_state (of_rows [[1]]) (of_rows [[2]])" 1 1 0]
  by (simp add: head_state_def grad_W_entry_def grad_H_entry_def eval_arr) blast

text \<open>
  C6, as the code has it. The loss appended to \<open>loss_history\<close> in a pass is \<open>lossfunc\<close> at
  the factors the pass began with (the factors drawn, in the first pass; otherwise the
  result of the update of the pass before), not at the factors its own update produces.
\<close>

theorem loss_recorded_before_update:
  assumes "sgd_body Mat eta lamda s = Inr s'"
  shows "\<exists>L. lossfunc Mat (s_W s) (s_H s) lamda = Inr L
            \<and> s_loss_history s' = s_loss_history s @ [L]"
  using sgd_body_Inr [OF assms] by auto

theorem loss_recorded_before_update_witness:
  "\<exists>s'. sgd_body (of_rows [[0]]) (1/2) 0 (head_state (of_rows [[1]]) (of_rows [[1]])) = Inr s'
     \<and> lossfunc (of_rows [[0]]) (of_rows [[1]]) (of_rows [[1]]) 0 = Inr (1/2)
     \<and> s_loss_history s' = [1/2]"
proof -
  obtain s' where s': "sgd_body (of_rows [[0]]) (1/2) 0 (head_state (of_rows [[1]]) (of_rows [[1]])) = Inr s'"
    by (simp add: eval_body eval_arr)
  have L: "lossfunc (of_rows [[0]]) (of_rows [[1]]) (of_rows [[1]]) 0 = Inr (1/2)"
    by (simp add: lossfunc_def square_norm eval_arr)
  from loss_recorded_before_update [OF s'] L have "s_loss_history s' = [1/2]"
    by (auto simp add: head_state_def)
  with s' L show ?thesis by blast
qed

text \<open>
  C6 as stated fails: at \<open>V = [[0]]\<close>, \<open>W = H = [[1]]\<close>, \<open>eta = 1/2\<close>, \<open>lamda = 0\<close> the pass
  records the loss 1/2, and the loss at the factors it produces is 1/32.
\<close>

theorem loss_recorded_post_update_counterexample:
  "map_sum id s_loss_history
     (sgd_body (of_rows [[0]]) (1/2) 0 (head_state (of_rows [[1]]) (of_rows [[1]]))) = Inr [1/2]
   \<and> bind (sgd_body (of_rows [[0]]) (1/2) 0 (head_state (of_rows [[1]]) (of_rows [[1]])))
        (loss_at (of_rows [[0]]) 0) = Inr (1/32)"
  by (simp add: eval_body eval_arr loss_at_def power2_eq_square)

text \<open>
  C1, as the code has it. After the update of a pass, \<open>Error2\<close> is the absolute value of
  the signed mean of the entries of \<open>V - W'H'\<close> at the updated factors (NaN when \<open>V\<close> has no
  entry). It is not a mean of absolute values or a norm: at \<open>V = [[1/2, 0]]\<close>,
  \<open>W = [[1]]\<close>, \<open>H = [[1/2, 1]]\<close>, \<open>eta = 1/2\<close>, \<open>lamda = 0\<close> the residual after the update
  has the entries 1/4 and -1/4, and \<open>Error2\<close> is 0.
\<close>

theorem error_estimate_is_abs_of_signed_mean:
  assumes "shape Mat = (m, n)" "shape (s_W s) = (m, d)" "shape (s_H s) = (d, n)"
  shows "(\<exists>s'. sgd_body Mat eta lamda s = Inr s'
            \<and> s_Error2 s' = (if m * n = 0 then NaN
                              else Fin \<bar>signed_mean_residual Mat (s_W s') (s_H s')\<bar>))
     \<and> (\<exists>c. sgd_body (of_rows [[1/2, 0]]) (1/2) 0
               (head_state (of_rows [[1]]) (of_rows [[1/2, 1]])) = Inr c
            \<and> residual_entry (of_rows [[1/2, 0]]) (s_W c) (s_H c) 0 0 = 1/4
            \<and> residual_entry (of_rows [[1/2, 0]]) (s_W c) (s_H c) 0 1 = - 1/4
            \<and> s_Error2 c = Fin 0)"
proof (rule conjI)
  have sh: "nrows (s_W s) = nrows Mat" "ncols (s_W s) = nrows (s_H s)" "ncols (s_H s) = ncols Mat"
    using assms by (simp_all add: shape_def)
  from sgd_body_value [OF sh, of eta lamda] obtain s' where
    "sgd_body Mat eta lamda s = Inr s'"
    "s_Error2 s' = (if nrows Mat * ncols Mat = 0 then NaN
                    else Fin \<bar>signed_mean_residual Mat (s_W s') (s_H s')\<bar>)"
    by blast
  then show "\<exists>s'. sgd_body Mat eta lamda s = Inr s'
            \<and> s_Error2 s' = (if m * n = 0 then NaN
                              else Fin \<bar>signed_mean_residual Mat (s_W s') (s_H s')\<bar>)"
    using assms(1) by (intro exI [of _ s']) (simp add: shape_def)
next
  show "\<exists>c. sgd_body (of_rows [[1/2, 0]]) (1/2) 0
               (head_state (of_rows [[1]]) (of_rows [[1/2, 1]])) = Inr c
            \<and> residual_entry (of_rows [[1/2, 0]]) (s_W c) (s_H c) 0 0 = 1/4
            \<and> residual_entry (of_rows [[1/2, 0]]) (s_W c) (s_H c) 0 1 = - 1/4
            \<and> s_Error2 c = Fin 0"
    by (simp add: eval_body eval_arr power2_eq_square)
qed

theorem error_estimate_is_abs_of_signed_mean_witness:
  "shape (of_rows [[0]]) = (1, 1) \<and> shape (of_rows [[1]]) = (1, 1)
   \<and> (\<exists>s'. sgd_body (of_rows [[0]]) (1/2) 0 (head_state (of_rows [[1]]) (of_rows [[1]])) = Inr s'
         \<and> s_Error2 s' = Fin \<bar>signed_mean_residual (of_rows [[0]]) (s_W s') (s_H s')\<bar>)"
  using error_estimate_is_abs_of_signed_mean
    [of "of_rows [[0]]" 1 1 "head_state (of_rows [[1]]) (of_rows [[1]])" 1 "1/2" 0]
  by (simp add: head_state_def shape_def of_rows_def)

text \<open>
  C1 as stated fails: at \<open>V = [[0]]\<close>, \<open>W = H = [[1]]\<close>, \<open>eta = 1/2\<close>, \<open>lamda = 0\<close> the
  estimate after the update is 1/4 and the signed mean of the residual is -1/4.
\<close>

theorem error_estimate_signed_counterexample:
  "map_sum id s_Error2
     (sgd_body (of_rows [[0]]) (1/2) 0 (head_state (of_rows [[1]]) (of_rows [[1]])))
     = Inr (Fin (1/4))
   \<and> bind (sgd_body (of_rows [[0]]) (1/2) 0 (head_state (of_rows [[1]]) (of_rows [[1]])))
        (mean_residual_at (of_rows [[0]])) = Inr (Fin (- 1/4))"
  by (simp add: eval_body eval_arr mean_residual_at_def power2_eq_square)

text \<open>
  C7. The update does not keep the factors nonnegative: \<open>V = [[0]]\<close>, \<open>W = [[1]]\<close>,
  \<open>H = [[2]]\<close> are nonnegative, \<open>eta = 1 > 0\<close> and \<open>lamda = 0\<close>, and one pass gives
  \<open>W' = [[-3]]\<close>. Nothing after the two subtractions changes \<open>W'\<close> or \<open>H'\<close>.
\<close>

theorem update_breaks_nonnegativity:
  "\<exists>Mat Wp Hp eta lamda s'.
     nonneg Mat \<and> nonneg Wp \<and> nonneg Hp \<and> 0 < eta \<and> 0 \<le> lamda
     \<and> sgd_body Mat eta lamda (head_state Wp Hp) = Inr s'
     \<and> shape (s_W s') = (1, 1) \<and> ent (s_W s') 0 0 < 0 \<and> \<not> nonneg (s_W s')"
proof -
  have "nonneg (of_rows [[0]]) \<and> nonneg (of_rows [[1]]) \<and> nonneg (of_rows [[2]])"
    by (simp add: nonneg_def eval_arr)
  moreover have "\<exists>s'. sgd_body (of_rows [[0]]) 1 0 (head_state (of_rows [[1]]) (of_rows [[2]])) = Inr s'
     \<and> shape (s_W s') = (1, 1) \<and> ent (s_W s') 0 0 < 0 \<and> \<not> nonneg (s_W s')"
    by (simp add: eval_body eval_arr nonneg_def)
  moreover have "(0::real) < 1 \<and> (0::real) \<le> 0" by simp
  ultimately show ?thesis by blast
qed

section \<open>The loop\<close>

lemma exit_test_0:
  "exit_test Mat eta lamda epsilon s 0 =
     (case sgd_body Mat eta lamda s of Inl e \<Rightarrow> False | Inr b \<Rightarrow> converged epsilon s b)"
  by (simp add: exit_test_def)

lemma exit_test_Suc:
  "sgd_body Mat eta lamda s = Inr s1 \<Longrightarrow>
   exit_test Mat eta lamda epsilon s (Suc k) = exit_test Mat eta lamda epsilon s1 k"
  by (simp add: exit_test_def)

lemma sgd_loop_Inr_iter:
  assumes "sgd_loop Mat eta lamda epsilon s = Some r"
  shows "case r of
           Inl e \<Rightarrow> \<exists>k. sgd_iter Mat eta lamda (Suc k) s = Inl e
         | Inr s' \<Rightarrow> \<exists>k. exit_test Mat eta lamda epsilon s k
                \<and> (\<forall>j<k. \<not> exit_test Mat eta lamda epsilon s j)
                \<and> sgd_iter Mat eta lamda (Suc k) s = Inr s'"
proof -
  define P where "P = (\<lambda>Mat eta lamda epsilon s (r :: error + sgd_state).
     case r of
       Inl e \<Rightarrow> \<exists>k. sgd_iter Mat eta lamda (Suc k) s = Inl e
     | Inr s' \<Rightarrow> \<exists>k. exit_test Mat eta lamda epsilon s k
            \<and> (\<forall>j<k. \<not> exit_test Mat eta lamda epsilon s j)
            \<and> sgd_iter Mat eta lamda (Suc k) s = Inr s')"
  have "P Mat eta lamda epsilon s r"
  proof (rule sgd_loop.raw_induct [where P = P, OF _ assms])
    fix loop Mat eta lamda epsilon s r
    assume IH: "\<And>Mat eta lamda epsilon s r.
        loop Mat eta lamda epsilon s = Some r \<Longrightarrow> P Mat eta lamda epsilon s r"
      and eq: "(case sgd_body Mat eta lamda s of
                  Inl e \<Rightarrow> Some (Inl e)
                | Inr s' \<Rightarrow> if converged epsilon s s' then Some (Inr s')
                            else loop Mat eta lamda epsilon s') = Some r"
    show "P Mat eta lamda epsilon s r"
    proof (cases "sgd_body Mat eta lamda s")
      case (Inl e)
      with eq have "r = Inl e" by simp
      moreover have "sgd_iter Mat eta lamda (Suc 0) s = Inl e"
        using Inl by simp
      ultimately show ?thesis
        unfolding P_def by (simp del: sgd_iter.simps) blast
    next
      case (Inr s1)
      show ?thesis
      proof (cases "converged epsilon s s1")
        case True
        with eq Inr have r: "r = Inr s1" by simp
        have "exit_test Mat eta lamda epsilon s 0"
          using Inr True by (simp add: exit_test_0)
        moreover have "sgd_iter Mat eta lamda (Suc 0) s = Inr s1"
          using Inr by simp
        moreover have "\<forall>j<0::nat. \<not> exit_test Mat eta lamda epsilon s j"
          by simp
        ultimately show ?thesis
          unfolding P_def r by (simp del: sgd_iter.simps) blast
      next
        case False
        with eq Inr have "loop Mat eta lamda epsilon s1 = Some r" by simp
        from IH [OF this] have IH': "P Mat eta lamda epsilon s1 r" .
        have n0: "\<not> exit_test Mat eta lamda epsilon s 0"
          using Inr False by (simp add: exit_test_0)
        show ?thesis
        proof (cases r)
          case (Inl e)
          with IH' obtain k where "sgd_iter Mat eta lamda (Suc k) s1 = Inl e"
            unfolding P_def by auto
          then have "sgd_iter Mat eta lamda (Suc (Suc k)) s = Inl e"
            using Inr by simp
          then show ?thesis
            unfolding P_def Inl by (simp del: sgd_iter.simps) blast
        next
          case r: (Inr s')
          with IH' obtain k where k: "exit_test Mat eta lamda epsilon s1 k"
            "\<forall>j<k. \<not> exit_test Mat eta lamda epsilon s1 j"
            "sgd_iter Mat eta lamda (Suc k) s1 = Inr s'"
            unfolding P_def by auto
          have "exit_test Mat eta lamda epsilon s (Suc k)"
            using k(1) by (simp add: exit_test_Suc [OF Inr])
          moreover have "\<forall>j<Suc k. \<not> exit_test Mat eta lamda epsilon s j"
          proof (intro allI impI)
            fix j assume "j < Suc k"
            then show "\<not> exit_test Mat eta lamda epsilon s j"
              using n0 k(2) by (cases j) (simp_all add: exit_test_Suc [OF Inr])
          qed
          moreover have "sgd_iter Mat eta lamda (Suc (Suc k)) s = Inr s'"
            using Inr k(3) by simp
          ultimately show ?thesis
            unfolding P_def r by (simp del: sgd_iter.simps) blast
        qed
      qed
    qed
  qed
  then show ?thesis unfolding P_def .
qed

lemma sgd_loop_first_exit:
  assumes "exit_test Mat eta lamda epsilon s k"
    and "\<forall>j<k. \<not> exit_test Mat eta lamda epsilon s j"
  shows "\<exists>s'. sgd_iter Mat eta lamda (Suc k) s = Inr s'
            \<and> sgd_loop Mat eta lamda epsilon s = Some (Inr s')"
  using assms
proof (induction k arbitrary: s)
  case 0
  then obtain b where b: "sgd_body Mat eta lamda s = Inr b" "converged epsilon s b"
    by (auto simp: exit_test_0 split: sum.splits)
  then show ?case
    by (subst sgd_loop.simps) simp
next
  case (Suc k)
  from Suc.prems(1) obtain s1 where s1: "sgd_body Mat eta lamda s = Inr s1"
    by (cases "sgd_body Mat eta lamda s") (simp_all add: exit_test_def)
  have "\<not> exit_test Mat eta lamda epsilon s 0"
    using Suc.prems(2) by blast
  then have nc: "\<not> converged epsilon s s1"
    using s1 by (simp add: exit_test_0)
  have "exit_test Mat eta lamda epsilon s1 k"
    using Suc.prems(1) by (simp add: exit_test_Suc [OF s1])
  moreover have "\<forall>j<k. \<not> exit_test Mat eta lamda epsilon s1 j"
  proof (intro allI impI)
    fix j assume "j < k"
    then have "\<not> exit_test Mat eta lamda epsilon s (Suc j)"
      using Suc.prems(2) by simp
    then show "\<not> exit_test Mat eta lamda epsilon s1 j"
      by (simp add: exit_test_Suc [OF s1])
  qed
  ultimately obtain s' where s': "sgd_iter Mat eta lamda (Suc k) s1 = Inr s'"
      "sgd_loop Mat eta lamda epsilon s1 = Some (Inr s')"
    using Suc.IH by blast
  have "sgd_loop Mat eta lamda epsilon s = sgd_loop Mat eta lamda epsilon s1"
    by (subst sgd_loop.simps) (simp add: s1 nc)
  moreover have "sgd_iter Mat eta lamda (Suc (Suc k)) s = sgd_iter Mat eta lamda (Suc k) s1"
    using s1 by simp
  ultimately show ?case
    using s' by (simp del: sgd_iter.simps)
qed

lemma sgd_loop_None:
  assumes "\<forall>k. \<not> exit_test Mat eta lamda epsilon s k"
    and "\<forall>k. \<exists>a. sgd_iter Mat eta lamda k s = Inr a"
  shows "sgd_loop Mat eta lamda epsilon s = None"
proof (rule ccontr)
  assume "sgd_loop Mat eta lamda epsilon s \<noteq> None"
  then obtain r where r: "sgd_loop Mat eta lamda epsilon s = Some r" by auto
  show False
  proof (cases r)
    case (Inl e)
    with sgd_loop_Inr_iter [OF r] obtain k where "sgd_iter Mat eta lamda (Suc k) s = Inl e"
      by auto
    moreover obtain a where "sgd_iter Mat eta lamda (Suc k) s = Inr a"
      using assms(2) by blast
    ultimately show False by simp
  next
    case (Inr s')
    with sgd_loop_Inr_iter [OF r] obtain k where "exit_test Mat eta lamda epsilon s k"
      by auto
    then show False using assms(1) by blast
  qed
qed

lemma growth:
  fixes w :: real
  assumes "4 \<le> w\<^sup>2"
  shows "9 * w\<^sup>2 \<le> (w - w * (w * w))\<^sup>2"
proof -
  define x where "x = w\<^sup>2"
  have x: "4 \<le> x" using assms by (simp add: x_def)
  have "3\<^sup>2 \<le> (x - 1)\<^sup>2"
    by (rule power_mono) (use x in simp_all)
  then have "9 \<le> (x - 1)\<^sup>2" by simp
  then have "9 * x \<le> (x - 1)\<^sup>2 * x"
    by (rule mult_right_mono) (use x in simp)
  also have "(x - 1)\<^sup>2 * x = (w - w * (w * w))\<^sup>2"
    by (simp add: x_def power2_eq_square algebra_simps)
  finally show ?thesis by (simp add: x_def)
qed

lemma diverging_step:
  assumes "diverging a"
  shows "\<exists>b. sgd_body (of_rows [[0]]) 1 0 a = Inr b \<and> diverging b \<and> \<not> converged 1 a b"
proof -
  define w where "w = ent (s_W a) 0 0"
  from assms obtain e where a:
    "nrows (s_W a) = 1" "ncols (s_W a) = 1" "nrows (s_H a) = 1" "ncols (s_H a) = 1"
    "ent (s_H a) 0 0 = w" "4 \<le> w\<^sup>2" "s_Error2 a = Fin e" "0 \<le> e" "e \<le> w\<^sup>2"
    by (auto simp: diverging_def shape_def w_def split: pyfloat.splits)
  have sh: "nrows (s_W a) = nrows (of_rows [[0]])" "ncols (s_W a) = nrows (s_H a)"
    "ncols (s_H a) = ncols (of_rows [[0]])"
    using a by (simp_all add: of_rows_def)
  from sgd_body_value [OF sh, of 1 0] obtain b where b:
    "sgd_body (of_rows [[0]]) 1 0 a = Inr b"
    "nrows (s_W b) = nrows (s_W a)" "ncols (s_W b) = ncols (s_W a)"
    "nrows (s_H b) = nrows (s_H a)" "ncols (s_H b) = ncols (s_H a)"
    "\<forall>i k. i < nrows (s_W a) \<longrightarrow> k < ncols (s_W a) \<longrightarrow>
       ent (s_W b) i k = ent (s_W a) i k - 1 * grad_W_entry (of_rows [[0]]) (s_W a) (s_H a) 0 i k"
    "\<forall>k j. k < nrows (s_H a) \<longrightarrow> j < ncols (s_H a) \<longrightarrow>
       ent (s_H b) k j = ent (s_H a) k j - 1 * grad_H_entry (of_rows [[0]]) (s_W a) (s_H a) 0 k j"
    "s_Error2 b = (if nrows (of_rows [[0]]) * ncols (of_rows [[0]]) = 0 then NaN
                   else Fin \<bar>signed_mean_residual (of_rows [[0]]) (s_W b) (s_H b)\<bar>)"
    by blast
  have Wb: "ent (s_W b) 0 0 = w - w * (w * w)"
    using b(6) a by (simp add: grad_W_entry_def entry_WH_def of_rows_def w_def [symmetric])
  have Hb: "ent (s_H b) 0 0 = w - w * (w * w)"
    using b(7) a by (simp add: grad_H_entry_def entry_WH_def of_rows_def w_def [symmetric])
  have Eb: "s_Error2 b = Fin ((w - w * (w * w))\<^sup>2)"
    using b(2-5) a by (simp add: b(8) signed_mean_residual_def residual_entry_def entry_WH_def
        of_rows_def Wb Hb power2_eq_square)
  have g: "9 * w\<^sup>2 \<le> (w - w * (w * w))\<^sup>2"
    by (rule growth) (rule a(6))
  have "diverging b"
    using b(2-5) a g by (simp add: diverging_def shape_def Wb Hb Eb)
  moreover have "\<not> converged 1 a b"
    using a g by (simp add: converged_def Eb)
  ultimately show ?thesis using b(1) by blast
qed

lemma diverging_iter:
  "diverging a \<Longrightarrow> \<exists>b. sgd_iter (of_rows [[0]]) 1 0 k a = Inr b \<and> diverging b"
proof (induction k arbitrary: a)
  case 0
  then show ?case by simp
next
  case (Suc k)
  from diverging_step [OF Suc.prems] obtain a1 where
    "sgd_body (of_rows [[0]]) 1 0 a = Inr a1" "diverging a1" by blast
  then show ?case using Suc.IH [of a1] by simp
qed

lemma diverging_no_exit:
  assumes "diverging a"
  shows "\<not> exit_test (of_rows [[0]]) 1 0 1 a k"
proof -
  from diverging_iter [OF assms, of k] obtain b where
    b: "sgd_iter (of_rows [[0]]) 1 0 k a = Inr b" "diverging b" by blast
  from diverging_step [OF b(2)] obtain c where
    "sgd_body (of_rows [[0]]) 1 0 b = Inr c" "\<not> converged 1 b c" by blast
  then show ?thesis using b(1) by (simp add: exit_test_def)
qed

lemma diverging_None:
  assumes "diverging a"
  shows "sgd_loop (of_rows [[0]]) 1 0 1 a = None"
proof (rule sgd_loop_None)
  show "\<forall>k. \<not> exit_test (of_rows [[0]]) 1 0 1 a k"
    using diverging_no_exit [OF assms] by blast
  show "\<forall>k. \<exists>b. sgd_iter (of_rows [[0]]) 1 0 k a = Inr b"
    using diverging_iter [OF assms] by blast
qed

lemma sgd_init_value:
  "sgd_init Mat num_topics gW gH =
     (if num_topics < 0 then Inl ValueError
      else Inr \<lparr>s_i = 0, s_Error2 = Fin 0, s_w_history = [], s_h_history = [],
                s_loss_history = [],
                s_W = \<lparr>nrows = nrows Mat, ncols = nat num_topics, ent = (\<lambda>i j. \<bar>gW i j\<bar>)\<rparr>,
                s_H = \<lparr>nrows = nat num_topics, ncols = ncols Mat, ent = (\<lambda>i j. \<bar>gH i j\<bar>)\<rparr>\<rparr>)"
  by (simp add: sgd_init_def shape_def random_normal_def np_abs_def)

lemma diverging_run:
  "\<exists>s0. sgd_init (of_rows [[0]]) 1 (sample_rows [[2]]) (sample_rows [[2]]) = Inr s0 \<and> diverging s0"
  by (simp add: sgd_init_value diverging_def shape_def of_rows_def sample_rows_def)

lemma diverging_sgd:
  "sgd (of_rows [[0]]) 1 1 0 1 (sample_rows [[2]]) (sample_rows [[2]]) = None"
proof -
  from diverging_run obtain s0 where
    "sgd_init (of_rows [[0]]) 1 (sample_rows [[2]]) (sample_rows [[2]]) = Inr s0" "diverging s0"
    by blast
  then show ?thesis
    by (simp add: sgd_def diverging_None)
qed

lemma sgd_iter_shapes:
  assumes "nrows (s_W s) = nrows Mat" "ncols (s_W s) = nrows (s_H s)" "ncols (s_H s) = ncols Mat"
  shows "\<exists>b. sgd_iter Mat eta lamda k s = Inr b
     \<and> shape (s_W b) = shape (s_W s) \<and> shape (s_H b) = shape (s_H s)"
  using assms
proof (induction k arbitrary: s)
  case 0
  then show ?case by simp
next
  case (Suc k)
  from sgd_body_value [OF Suc.prems, of eta lamda] obtain s1 where s1:
    "sgd_body Mat eta lamda s = Inr s1"
    "nrows (s_W s1) = nrows (s_W s)" "ncols (s_W s1) = ncols (s_W s)"
    "nrows (s_H s1) = nrows (s_H s)" "ncols (s_H s1) = ncols (s_H s)"
    by blast
  have "\<exists>b. sgd_iter Mat eta lamda k s1 = Inr b
     \<and> shape (s_W b) = shape (s_W s1) \<and> shape (s_H b) = shape (s_H s1)"
    by (rule Suc.IH) (simp_all add: s1 Suc.prems)
  then show ?case
    using s1 by (simp add: shape_def)
qed

lemma sgd_body_counts:
  assumes "sgd_body Mat eta lamda s = Inr s'"
  shows "s_i s' = s_i s + 1 \<and> length (s_loss_history s') = length (s_loss_history s) + 1"
  using sgd_body_Inr [OF assms] by auto

lemma sgd_iter_counts:
  "sgd_iter Mat eta lamda k s = Inr s' \<Longrightarrow>
   s_i s' = s_i s + k \<and> length (s_loss_history s') = length (s_loss_history s) + k"
proof (induction k arbitrary: s)
  case 0
  then show ?case by simp
next
  case (Suc k)
  then obtain s1 where s1: "sgd_body Mat eta lamda s = Inr s1" "sgd_iter Mat eta lamda k s1 = Inr s'"
    by (auto simp: bind_eq_Inr)
  from Suc.IH [OF s1(2)] sgd_body_counts [OF s1(1)] show ?case by simp
qed

lemma sgd_iter_Suc_right:
  "sgd_iter Mat eta lamda (Suc k) s = bind (sgd_iter Mat eta lamda k s) (sgd_body Mat eta lamda)"
proof (induction k arbitrary: s)
  case 0
  show ?case by (cases "sgd_body Mat eta lamda s") simp_all
next
  case (Suc k)
  show ?case
  proof (cases "sgd_body Mat eta lamda s")
    case (Inl e)
    then show ?thesis by simp
  next
    case (Inr s1)
    have "sgd_iter Mat eta lamda (Suc (Suc k)) s = sgd_iter Mat eta lamda (Suc k) s1"
      using Inr by simp
    also have "\<dots> = bind (sgd_iter Mat eta lamda k s1) (sgd_body Mat eta lamda)"
      by (rule Suc.IH)
    also have "sgd_iter Mat eta lamda k s1 = sgd_iter Mat eta lamda (Suc k) s"
      using Inr by simp
    finally show ?thesis .
  qed
qed

lemma estimate_iter:
  assumes "nrows (s_W s) = nrows Mat" "ncols (s_W s) = nrows (s_H s)" "ncols (s_H s) = ncols Mat"
    and "sgd_iter Mat eta lamda k s = Inr a"
  shows "estimate Mat eta lamda s k = s_Error2 a"
proof (cases k)
  case 0
  with assms(4) show ?thesis by (simp add: estimate_def)
next
  case (Suc j)
  from sgd_iter_shapes [OF assms(1-3), of eta lamda j] obtain c where
    c: "sgd_iter Mat eta lamda j s = Inr c" "shape (s_W c) = shape (s_W s)"
    "shape (s_H c) = shape (s_H s)" by blast
  have sh: "nrows (s_W c) = nrows Mat" "ncols (s_W c) = nrows (s_H c)" "ncols (s_H c) = ncols Mat"
    using c(2,3) assms(1-3) by (simp_all add: shape_def)
  from sgd_body_value [OF sh, of eta lamda] obtain s' where s':
    "sgd_body Mat eta lamda c = Inr s'"
    "s_Error2 s' = (if nrows Mat * ncols Mat = 0 then NaN
                    else Fin \<bar>signed_mean_residual Mat (s_W s') (s_H s')\<bar>)"
    by blast
  have "sgd_iter Mat eta lamda (Suc j) s = Inr s'"
    by (simp only: sgd_iter_Suc_right c(1) bind_Inr s'(1))
  with assms(4) Suc have "a = s'" by simp
  then show ?thesis
    using assms(4) s'(2) by (simp add: estimate_def Suc del: sgd_iter.simps)
qed

lemma exit_test_estimate:
  assumes "nrows (s_W s) = nrows Mat" "ncols (s_W s) = nrows (s_H s)" "ncols (s_H s) = ncols Mat"
  shows "exit_test Mat eta lamda epsilon s k \<longleftrightarrow>
     (\<exists>a b. estimate Mat eta lamda s k = Fin a \<and> estimate Mat eta lamda s (Suc k) = Fin b
            \<and> \<bar>a - b\<bar> < epsilon)"
proof -
  from sgd_iter_shapes [OF assms, of eta lamda k] obtain c where
    c: "sgd_iter Mat eta lamda k s = Inr c" by blast
  from sgd_iter_shapes [OF assms, of eta lamda "Suc k"] obtain c' where
    c': "sgd_iter Mat eta lamda (Suc k) s = Inr c'" by blast
  have b: "sgd_body Mat eta lamda c = Inr c'"
    using c' by (simp only: sgd_iter_Suc_right c bind_Inr)
  have e: "estimate Mat eta lamda s k = s_Error2 c" "estimate Mat eta lamda s (Suc k) = s_Error2 c'"
    using estimate_iter [OF assms c] estimate_iter [OF assms c'] by simp_all
  have "exit_test Mat eta lamda epsilon s k = converged epsilon c c'"
    by (simp add: exit_test_def c b)
  also have "\<dots> \<longleftrightarrow> (\<exists>a b. s_Error2 c = Fin a \<and> s_Error2 c' = Fin b \<and> \<bar>a - b\<bar> < epsilon)"
    by (cases "s_Error2 c"; cases "s_Error2 c'") (simp_all add: converged_def)
  finally show ?thesis by (simp only: e)
qed

text \<open>
  C5. Let \<open>e(0)\<close> be the value of \<open>Error2\<close> before the loop (0 in \<open>sgd\<close>) and \<open>e(t)\<close>, for
  \<open>t > 0\<close>, the absolute mean of the entries of \<open>V - WH\<close> at the factors after \<open>t\<close> passes
  (\<open>estimate\<close>). On factors of shapes (m, d) and (d, n) for \<open>V\<close> of shape (m, n), the loop
  returns the state after pass \<open>k + 1\<close> exactly when \<open>e(k)\<close> and \<open>e(k + 1)\<close> are numbers with
  \<open>|e(k) - e(k + 1)| < epsilon\<close> and no earlier pair of consecutive estimates is that
  close. There is no other exit and no bound on the number of passes: the loop does not
  return exactly when no pair of consecutive estimates is that close. For \<open>V = [[0]]\<close>,
  one topic, \<open>eta = 1\<close>, \<open>lamda = 0\<close>, \<open>epsilon = 1\<close> and the factors drawn
  \<open>W = H = [[2]]\<close>, every two consecutive estimates differ by at least 1 and \<open>sgd\<close> does
  not return.
\<close>

theorem loop_exits_at_first_small_change:
  assumes "shape Mat = (m, n)" "shape (s_W s) = (m, d)" "shape (s_H s) = (d, n)"
  shows "(sgd_loop Mat eta lamda epsilon s = Some (Inr s') \<longleftrightarrow>
      (\<exists>k a b. sgd_iter Mat eta lamda (Suc k) s = Inr s'
          \<and> estimate Mat eta lamda s k = Fin a \<and> estimate Mat eta lamda s (Suc k) = Fin b
          \<and> \<bar>a - b\<bar> < epsilon
          \<and> (\<forall>j<k. \<not> (\<exists>a b. estimate Mat eta lamda s j = Fin a
                           \<and> estimate Mat eta lamda s (Suc j) = Fin b \<and> \<bar>a - b\<bar> < epsilon))))
   \<and> (sgd_loop Mat eta lamda epsilon s = None \<longleftrightarrow>
      (\<forall>k. \<not> (\<exists>a b. estimate Mat eta lamda s k = Fin a
                    \<and> estimate Mat eta lamda s (Suc k) = Fin b \<and> \<bar>a - b\<bar> < epsilon)))
   \<and> (\<exists>s0. sgd_init (of_rows [[0]]) 1 (sample_rows [[2]]) (sample_rows [[2]]) = Inr s0
          \<and> (\<forall>k. \<exists>a b. estimate (of_rows [[0]]) 1 0 s0 k = Fin a
                     \<and> estimate (of_rows [[0]]) 1 0 s0 (Suc k) = Fin b \<and> 1 \<le> \<bar>a - b\<bar>))
   \<and> sgd (of_rows [[0]]) 1 1 0 1 (sample_rows [[2]]) (sample_rows [[2]]) = None"
proof (intro conjI)
  have sh: "nrows (s_W s) = nrows Mat" "ncols (s_W s) = nrows (s_H s)" "ncols (s_H s) = ncols Mat"
    using assms by (simp_all add: shape_def)
  note et = exit_test_estimate [OF sh, of eta lamda epsilon]
  show "sgd_loop Mat eta lamda epsilon s = Some (Inr s') \<longleftrightarrow>
      (\<exists>k a b. sgd_iter Mat eta lamda (Suc k) s = Inr s'
          \<and> estimate Mat eta lamda s k = Fin a \<and> estimate Mat eta lamda s (Suc k) = Fin b
          \<and> \<bar>a - b\<bar> < epsilon
          \<and> (\<forall>j<k. \<not> (\<exists>a b. estimate Mat eta lamda s j = Fin a
                           \<and> estimate Mat eta lamda s (Suc j) = Fin b \<and> \<bar>a - b\<bar> < epsilon)))"
  proof
    assume "sgd_loop Mat eta lamda epsilon s = Some (Inr s')"
    from sgd_loop_Inr_iter [OF this] obtain k where k: "exit_test Mat eta lamda epsilon s k"
      "\<forall>j<k. \<not> exit_test Mat eta lamda epsilon s j" "sgd_iter Mat eta lamda (Suc k) s = Inr s'"
      by auto
    from k(1) obtain a b where "estimate Mat eta lamda s k = Fin a"
      "estimate Mat eta lamda s (Suc k) = Fin b" "\<bar>a - b\<bar> < epsilon"
      unfolding et by blast
    moreover have "\<forall>j<k. \<not> (\<exists>a b. estimate Mat eta lamda s j = Fin a
                           \<and> estimate Mat eta lamda s (Suc j) = Fin b \<and> \<bar>a - b\<bar> < epsilon)"
      using k(2) unfolding et .
    ultimately show "\<exists>k a b. sgd_iter Mat eta lamda (Suc k) s = Inr s'
          \<and> estimate Mat eta lamda s k = Fin a \<and> estimate Mat eta lamda s (Suc k) = Fin b
          \<and> \<bar>a - b\<bar> < epsilon
          \<and> (\<forall>j<k. \<not> (\<exists>a b. estimate Mat eta lamda s j = Fin a
                           \<and> estimate Mat eta lamda s (Suc j) = Fin b \<and> \<bar>a - b\<bar> < epsilon))"
      using k(3) by blast
  next
    assume "\<exists>k a b. sgd_iter Mat eta lamda (Suc k) s = Inr s'
          \<and> estimate Mat eta lamda s k = Fin a \<and> estimate Mat eta lamda s (Suc k) = Fin b
          \<and> \<bar>a - b\<bar> < epsilon
          \<and> (\<forall>j<k. \<not> (\<exists>a b. estimate Mat eta lamda s j = Fin a
                           \<and> estimate Mat eta lamda s (Suc j) = Fin b \<and> \<bar>a - b\<bar> < epsilon))"
    then obtain k where k: "sgd_iter Mat eta lamda (Suc k) s = Inr s'"
      "\<exists>a b. estimate Mat eta lamda s k = Fin a \<and> estimate Mat eta lamda s (Suc k) = Fin b
          \<and> \<bar>a - b\<bar> < epsilon"
      "\<forall>j<k. \<not> (\<exists>a b. estimate Mat eta lamda s j = Fin a
                           \<and> estimate Mat eta lamda s (Suc j) = Fin b \<and> \<bar>a - b\<bar> < epsilon)"
      by blast
    have 1: "exit_test Mat eta lamda epsilon s k" using k(2) unfolding et .
    have 2: "\<forall>j<k. \<not> exit_test Mat eta lamda epsilon s j" using k(3) unfolding et .
    from sgd_loop_first_exit [OF 1 2] k(1)
    show "sgd_loop Mat eta lamda epsilon s = Some (Inr s')" by auto
  qed
  show "sgd_loop Mat eta lamda epsilon s = None \<longleftrightarrow>
      (\<forall>k. \<not> (\<exists>a b. estimate Mat eta lamda s k = Fin a
                    \<and> estimate Mat eta lamda s (Suc k) = Fin b \<and> \<bar>a - b\<bar> < epsilon))"
  proof
    assume N: "sgd_loop Mat eta lamda epsilon s = None"
    have "\<not> exit_test Mat eta lamda epsilon s k" for k
    proof
      assume "exit_test Mat eta lamda epsilon s k"
      then obtain k0 where "exit_test Mat eta lamda epsilon s k0"
        "\<forall>j<k0. \<not> exit_test Mat eta lamda epsilon s j"
        using exists_least_iff [of "exit_test Mat eta lamda epsilon s"] by blast
      from sgd_loop_first_exit [OF this] N show False by auto
    qed
    then show "\<forall>k. \<not> (\<exists>a b. estimate Mat eta lamda s k = Fin a
                    \<and> estimate Mat eta lamda s (Suc k) = Fin b \<and> \<bar>a - b\<bar> < epsilon)"
      unfolding et by blast
  next
    assume "\<forall>k. \<not> (\<exists>a b. estimate Mat eta lamda s k = Fin a
                    \<and> estimate Mat eta lamda s (Suc k) = Fin b \<and> \<bar>a - b\<bar> < epsilon)"
    then have "\<forall>k. \<not> exit_test Mat eta lamda epsilon s k"
      unfolding et .
    moreover have "\<forall>k. \<exists>a. sgd_iter Mat eta lamda k s = Inr a"
      using sgd_iter_shapes [OF sh, of eta lamda] by blast
    ultimately show "sgd_loop Mat eta lamda epsilon s = None"
      by (rule sgd_loop_None)
  qed
  show "\<exists>s0. sgd_init (of_rows [[0]]) 1 (sample_rows [[2]]) (sample_rows [[2]]) = Inr s0
          \<and> (\<forall>k. \<exists>a b. estimate (of_rows [[0]]) 1 0 s0 k = Fin a
                     \<and> estimate (of_rows [[0]]) 1 0 s0 (Suc k) = Fin b \<and> 1 \<le> \<bar>a - b\<bar>)"
  proof -
    from diverging_run obtain s0 where s0:
      "sgd_init (of_rows [[0]]) 1 (sample_rows [[2]]) (sample_rows [[2]]) = Inr s0" "diverging s0"
      by blast
    have sh0: "nrows (s_W s0) = nrows (of_rows [[0]])" "ncols (s_W s0) = nrows (s_H s0)"
      "ncols (s_H s0) = ncols (of_rows [[0]])"
      using s0(2) by (simp_all add: diverging_def shape_def of_rows_def)
    have "\<exists>a b. estimate (of_rows [[0]]) 1 0 s0 k = Fin a
                     \<and> estimate (of_rows [[0]]) 1 0 s0 (Suc k) = Fin b \<and> 1 \<le> \<bar>a - b\<bar>" for k
    proof -
      from diverging_iter [OF s0(2), of k] obtain c where
        c: "sgd_iter (of_rows [[0]]) 1 0 k s0 = Inr c" "diverging c" by blast
      from diverging_iter [OF s0(2), of "Suc k"] obtain c' where
        c': "sgd_iter (of_rows [[0]]) 1 0 (Suc k) s0 = Inr c'" "diverging c'" by blast
      obtain a b where ab: "s_Error2 c = Fin a" "s_Error2 c' = Fin b"
        using c(2) c'(2) by (auto simp: diverging_def split: pyfloat.splits)
      have e: "estimate (of_rows [[0]]) 1 0 s0 k = Fin a"
        "estimate (of_rows [[0]]) 1 0 s0 (Suc k) = Fin b"
        using estimate_iter [OF sh0 c(1)] estimate_iter [OF sh0 c'(1)] ab by simp_all
      have "\<not> exit_test (of_rows [[0]]) 1 0 1 s0 k"
        by (rule diverging_no_exit) (rule s0(2))
      then have "\<not> \<bar>a - b\<bar> < 1"
        unfolding exit_test_estimate [OF sh0] using e by blast
      then show ?thesis using e by auto
    qed
    then show ?thesis using s0(1) by blast
  qed
  show "sgd (of_rows [[0]]) 1 1 0 1 (sample_rows [[2]]) (sample_rows [[2]]) = None"
    by (rule diverging_sgd)
qed

text \<open>
  A run that leaves at the second pass: \<open>V = [[0]]\<close>, \<open>W = H = [[1]]\<close>, \<open>eta = 1/2\<close>,
  \<open>lamda = 0\<close>, \<open>epsilon = 1/8\<close>. The estimates are 0 (initial), 1/4 and 49/256. The first
  difference, 1/4, is not below \<open>epsilon\<close>; the second, 15/256, is, while the estimate
  49/256 itself is not.
\<close>

lemma two_passes:
  "\<exists>c1 c2. sgd_body (of_rows [[0]]) (1/2) 0 (head_state (of_rows [[1]]) (of_rows [[1]])) = Inr c1
     \<and> sgd_body (of_rows [[0]]) (1/2) 0 c1 = Inr c2
     \<and> s_Error2 c1 = Fin (1/4) \<and> s_Error2 c2 = Fin (49/256) \<and> s_i c2 = 2"
  by (simp add: eval_body eval_arr power2_eq_square)

theorem loop_exits_at_first_small_change_witness:
  "shape (of_rows [[0]]) = (1, 1) \<and> shape (of_rows [[1]]) = (1, 1)
   \<and> \<not> \<bar>0 - 1/4\<bar> < (1/8 :: real) \<and> \<bar>1/4 - 49/256\<bar> < (1/8 :: real)
   \<and> \<not> 49/256 < (1/8 :: real)
   \<and> (\<exists>s'. sgd_loop (of_rows [[0]]) (1/2) 0 (1/8) (head_state (of_rows [[1]]) (of_rows [[1]]))
              = Some (Inr s')
          \<and> estimate (of_rows [[0]]) (1/2) 0 (head_state (of_rows [[1]]) (of_rows [[1]])) 0 = Fin 0
          \<and> estimate (of_rows [[0]]) (1/2) 0 (head_state (of_rows [[1]]) (of_rows [[1]])) 1 = Fin (1/4)
          \<and> estimate (of_rows [[0]]) (1/2) 0 (head_state (of_rows [[1]]) (of_rows [[1]])) 2
               = Fin (49/256)
          \<and> s_i s' = 2 \<and> s_Error2 s' = Fin (49/256))"
proof -
  let ?V = "of_rows [[0]]" and ?s = "head_state (of_rows [[1]]) (of_rows [[1]])"
  from two_passes obtain c1 c2 where c:
    "sgd_body ?V (1/2) 0 ?s = Inr c1" "sgd_body ?V (1/2) 0 c1 = Inr c2"
    "s_Error2 c1 = Fin (1/4)" "s_Error2 c2 = Fin (49/256)" "s_i c2 = 2"
    by blast
  have shp: "shape ?V = (1, 1)" "shape (s_W ?s) = (1, 1)" "shape (s_H ?s) = (1, 1)"
    by (simp_all add: shape_def of_rows_def head_state_def)
  have sh: "nrows (s_W ?s) = nrows ?V" "ncols (s_W ?s) = nrows (s_H ?s)" "ncols (s_H ?s) = ncols ?V"
    by (simp_all add: of_rows_def head_state_def)
  have i1: "sgd_iter ?V (1/2) 0 (Suc 0) ?s = Inr c1" and i2: "sgd_iter ?V (1/2) 0 (Suc (Suc 0)) ?s = Inr c2"
    by (simp_all add: c)
  have e0: "estimate ?V (1/2) 0 ?s 0 = Fin 0"
    by (simp add: estimate_def head_state_def)
  have e1: "estimate ?V (1/2) 0 ?s (Suc 0) = Fin (1/4)"
    using estimate_iter [OF sh i1] c(3) by simp
  have e2: "estimate ?V (1/2) 0 ?s (Suc (Suc 0)) = Fin (49/256)"
    using estimate_iter [OF sh i2] c(4) by simp
  have first: "\<forall>j<Suc 0. \<not> (\<exists>a b. estimate ?V (1/2) 0 ?s j = Fin a
                 \<and> estimate ?V (1/2) 0 ?s (Suc j) = Fin b \<and> \<bar>a - b\<bar> < 1/8)"
    by (simp add: e0 e1)
  have "\<exists>k a b. sgd_iter ?V (1/2) 0 (Suc k) ?s = Inr c2
          \<and> estimate ?V (1/2) 0 ?s k = Fin a \<and> estimate ?V (1/2) 0 ?s (Suc k) = Fin b
          \<and> \<bar>a - b\<bar> < 1/8
          \<and> (\<forall>j<k. \<not> (\<exists>a b. estimate ?V (1/2) 0 ?s j = Fin a
                           \<and> estimate ?V (1/2) 0 ?s (Suc j) = Fin b \<and> \<bar>a - b\<bar> < 1/8))"
    using i2 e1 e2 first
    by (intro exI [of _ "Suc 0"] exI [of _ "1/4"] exI [of _ "49/256"]) simp
  then have "sgd_loop ?V (1/2) 0 (1/8) ?s = Some (Inr c2)"
    using loop_exits_at_first_small_change [OF shp, of "1/2" 0 "1/8" c2] by blast
  moreover have "estimate ?V (1/2) 0 ?s 1 = Fin (1/4)" "estimate ?V (1/2) 0 ?s 2 = Fin (49/256)"
    using e1 e2 by (simp_all add: numeral_2_eq_2)
  ultimately show ?thesis
    using c(4,5) e0 shp(1) by (auto simp: shape_def of_rows_def)
qed


text \<open>
  C8. For \<open>V\<close> of shape (m, n) and a positive rank \<open>d\<close>, the factors have the shapes
  (m, d) and (d, n) after every number of passes of the loop, no pass raises, and when
  \<open>sgd\<close> returns, the factors it returns have these shapes.
\<close>

theorem factor_shapes_invariant:
  assumes "shape Mat = (m, n)" "0 < d"
  shows "(\<forall>k. \<exists>s. bind (sgd_init Mat (int d) gW gH) (sgd_iter Mat eta lamda k) = Inr s
             \<and> shape (s_W s) = (m, d) \<and> shape (s_H s) = (d, n))
       \<and> (\<forall>r. sgd Mat (int d) eta lamda epsilon gW gH = Some r \<longrightarrow>
             (\<exists>Wf Hf rest. r = Inr (Wf, Hf, rest) \<and> shape Wf = (m, d) \<and> shape Hf = (d, n)))"
proof -
  obtain s0 where s0: "sgd_init Mat (int d) gW gH = Inr s0"
    "nrows (s_W s0) = nrows Mat" "ncols (s_W s0) = d" "nrows (s_H s0) = d"
    "ncols (s_H s0) = ncols Mat"
    by (simp add: sgd_init_value)
  have sh: "nrows (s_W s0) = nrows Mat" "ncols (s_W s0) = nrows (s_H s0)"
    "ncols (s_H s0) = ncols Mat"
    using s0 by simp_all
  have it: "\<exists>b. sgd_iter Mat eta lamda k s0 = Inr b
     \<and> shape (s_W b) = (m, d) \<and> shape (s_H b) = (d, n)" for k
    using sgd_iter_shapes [OF sh, of eta lamda k] s0 assms(1) by (simp add: shape_def)
  have "\<exists>Wf Hf rest. r = Inr (Wf, Hf, rest) \<and> shape Wf = (m, d) \<and> shape Hf = (d, n)"
    if r: "sgd Mat (int d) eta lamda epsilon gW gH = Some r" for r
  proof -
    from r obtain r0 where r0: "sgd_loop Mat eta lamda epsilon s0 = Some r0"
      "r = map_sum id sgd_return r0"
      by (auto simp: sgd_def s0)
    show ?thesis
    proof (cases r0)
      case (Inl e)
      with sgd_loop_Inr_iter [OF r0(1)] obtain k where "sgd_iter Mat eta lamda (Suc k) s0 = Inl e"
        by auto
      with it [of "Suc k"] show ?thesis by (simp del: sgd_iter.simps)
    next
      case (Inr s')
      with sgd_loop_Inr_iter [OF r0(1)] obtain k where "sgd_iter Mat eta lamda (Suc k) s0 = Inr s'"
        by auto
      with it [of "Suc k"] have "shape (s_W s') = (m, d) \<and> shape (s_H s') = (d, n)"
        by (simp del: sgd_iter.simps)
      then show ?thesis
        by (simp add: r0(2) Inr sgd_return_def)
    qed
  qed
  then show ?thesis
    using it by (simp add: s0 del: sgd_iter.simps)
qed

lemma cancel_run_init:
  "\<exists>s0. sgd_init (of_rows [[1/2, 0]]) 1 (sample_rows [[1]]) (sample_rows [[1/2, 1]]) = Inr s0
     \<and> (\<exists>c. sgd_body (of_rows [[1/2, 0]]) (1/2) 0 s0 = Inr c
            \<and> mean_residual (of_rows [[1/2, 0]]) (s_W c) (s_H c) = Inr (Fin 0)
            \<and> converged (1/100) s0 c)"
  by (simp add: sgd_init_value sample_rows_def eval_body eval_arr converged_def power2_eq_square)

lemma cancel_run:
  "\<exists>r. sgd (of_rows [[1/2, 0]]) 1 (1/2) 0 (1/100) (sample_rows [[1]]) (sample_rows [[1/2, 1]])
        = Some r"
proof -
  from cancel_run_init obtain s0 c where
    s0: "sgd_init (of_rows [[1/2, 0]]) 1 (sample_rows [[1]]) (sample_rows [[1/2, 1]]) = Inr s0"
    and c: "sgd_body (of_rows [[1/2, 0]]) (1/2) 0 s0 = Inr c" "converged (1/100) s0 c"
    by blast
  have "sgd_loop (of_rows [[1/2, 0]]) (1/2) 0 (1/100) s0 = Some (Inr c)"
    by (subst sgd_loop.simps) (simp add: c)
  then show ?thesis by (simp add: sgd_def s0)
qed

theorem factor_shapes_invariant_witness:
  "shape (of_rows [[1/2, 0]]) = (1, 2) \<and> (0::nat) < 1
   \<and> (\<exists>Wf Hf rest.
         sgd (of_rows [[1/2, 0]]) 1 (1/2) 0 (1/100) (sample_rows [[1]]) (sample_rows [[1/2, 1]])
           = Some (Inr (Wf, Hf, rest))
         \<and> shape Wf = (1, 1) \<and> shape Hf = (1, 2))"
proof -
  have sh: "shape (of_rows [[1/2, 0]]) = (1, 2)"
    by (simp add: shape_def of_rows_def)
  from cancel_run obtain r where
    r: "sgd (of_rows [[1/2, 0]]) 1 (1/2) 0 (1/100) (sample_rows [[1]]) (sample_rows [[1/2, 1]])
        = Some r" by blast
  from factor_shapes_invariant [OF sh, of 1 "sample_rows [[1]]" "sample_rows [[1/2, 1]]"
      "1/2" 0 "1/100"] r
  have "\<exists>Wf Hf rest. r = Inr (Wf, Hf, rest) \<and> shape Wf = (1, 1) \<and> shape Hf = (1, 2)"
    by simp
  with r sh show ?thesis by auto
qed

lemma sgd_init_Inr:
  assumes "sgd_init Mat num_topics gW gH = Inr s0"
  shows "s_i s0 = 0 \<and> s_Error2 s0 = Fin 0 \<and> s_loss_history s0 = []"
  using assms by (auto simp: sgd_init_value split: if_splits)

text \<open>
  C10. When \<open>sgd\<close> returns, the loop has made at least one full pass (the counter \<open>i\<close>
  returned is at least 1, and one loss was recorded per pass). \<open>Error2\<close> is 0 before the
  loop, so when the absolute mean residual after the first update is below
  \<open>epsilon\<close>, the test of the first pass compares it with that 0 and \<open>sgd\<close> returns the
  state of the first pass, with \<open>i = 1\<close>.
\<close>

theorem first_pass_exit:
  "(sgd Mat num_topics eta lamda epsilon gW gH = Some (Inr (Wf, Hf, lh, hh, wh, it, e))
      \<longrightarrow> 1 \<le> it \<and> length lh = it)
   \<and> (sgd_init Mat num_topics gW gH = Inr s0 \<and> sgd_body Mat eta lamda s0 = Inr s1
        \<and> mean_residual Mat (s_W s1) (s_H s1) = Inr (Fin r) \<and> \<bar>r\<bar> < epsilon
      \<longrightarrow> sgd Mat num_topics eta lamda epsilon gW gH = Some (Inr (sgd_return s1)) \<and> s_i s1 = 1)"
proof (intro conjI impI)
  assume ret: "sgd Mat num_topics eta lamda epsilon gW gH = Some (Inr (Wf, Hf, lh, hh, wh, it, e))"
  then obtain s0 where s0: "sgd_init Mat num_topics gW gH = Inr s0"
    by (cases "sgd_init Mat num_topics gW gH") (simp_all add: sgd_def)
  with ret obtain r0 where r0: "sgd_loop Mat eta lamda epsilon s0 = Some r0"
    "map_sum id sgd_return r0 = Inr (Wf, Hf, lh, hh, wh, it, e)"
    by (auto simp: sgd_def)
  then obtain s' where s': "sgd_loop Mat eta lamda epsilon s0 = Some (Inr s')"
    "sgd_return s' = (Wf, Hf, lh, hh, wh, it, e)"
    by (cases r0) simp_all
  from sgd_loop_Inr_iter [OF s'(1)] obtain k where "sgd_iter Mat eta lamda (Suc k) s0 = Inr s'"
    by auto
  from sgd_iter_counts [OF this] sgd_init_Inr [OF s0]
  have "s_i s' = Suc k" "length (s_loss_history s') = Suc k" by simp_all
  then show "1 \<le> it" "length lh = it"
    using s'(2) by (simp_all add: sgd_return_def)
next
  assume h: "sgd_init Mat num_topics gW gH = Inr s0 \<and> sgd_body Mat eta lamda s0 = Inr s1
        \<and> mean_residual Mat (s_W s1) (s_H s1) = Inr (Fin r) \<and> \<bar>r\<bar> < epsilon"
  then have s0: "sgd_init Mat num_topics gW gH = Inr s0"
    and s1: "sgd_body Mat eta lamda s0 = Inr s1"
    and mr: "mean_residual Mat (s_W s1) (s_H s1) = Inr (Fin r)" and r: "\<bar>r\<bar> < epsilon"
    by simp_all
  from sgd_body_Inr [OF s1] mr have E: "s_Error2 s1 = Fin \<bar>r\<bar>"
    by auto
  have "converged epsilon s0 s1"
    using sgd_init_Inr [OF s0] E r by (simp add: converged_def)
  then have "sgd_loop Mat eta lamda epsilon s0 = Some (Inr s1)"
    by (subst sgd_loop.simps) (simp add: s1)
  then show "sgd Mat num_topics eta lamda epsilon gW gH = Some (Inr (sgd_return s1))"
    by (simp add: sgd_def s0)
  show "s_i s1 = 1"
    using sgd_body_counts [OF s1] sgd_init_Inr [OF s0] by simp
qed

theorem first_pass_exit_witness:
  "\<exists>s1. sgd (of_rows [[1/2, 0]]) 1 (1/2) 0 (1/100) (sample_rows [[1]]) (sample_rows [[1/2, 1]])
          = Some (Inr (sgd_return s1))
     \<and> s_i s1 = 1 \<and> s_Error2 s1 = Fin 0"
proof -
  from cancel_run_init obtain s0 c where
    s0: "sgd_init (of_rows [[1/2, 0]]) 1 (sample_rows [[1]]) (sample_rows [[1/2, 1]]) = Inr s0"
    and c: "sgd_body (of_rows [[1/2, 0]]) (1/2) 0 s0 = Inr c"
      "mean_residual (of_rows [[1/2, 0]]) (s_W c) (s_H c) = Inr (Fin 0)"
    by blast
  from sgd_body_Inr [OF c(1)] c(2) have "s_Error2 c = Fin 0" by auto
  moreover have "sgd (of_rows [[1/2, 0]]) 1 (1/2) 0 (1/100) (sample_rows [[1]]) (sample_rows [[1/2, 1]])
          = Some (Inr (sgd_return c)) \<and> s_i c = 1"
    using first_pass_exit [of "of_rows [[1/2, 0]]" 1 "1/2" 0 "1/100" "sample_rows [[1]]"
        "sample_rows [[1/2, 1]]" _ _ _ _ _ _ _ s0 c 0] s0 c
    by simp
  ultimately show ?thesis by blast
qed



section \<open>The caller's array\<close>

lemma new_array_Inr:
  "new_array st r = Inr (st', p) \<longleftrightarrow> (\<exists>C. r = Inr C \<and> st' = st @ [C] \<and> p = length st)"
  by (auto simp: new_array_def alloc_def bind_eq_Inr)

lemma op2_Inr:
  "op2 f st a b = Inr (st', p) \<longleftrightarrow> (\<exists>C. f (st ! a) (st ! b) = Inr C \<and> st' = st @ [C] \<and> p = length st)"
  by (auto simp: op2_def new_array_Inr)

lemma op1_Inr:
  "op1 f st a = Inr (st', p) \<longleftrightarrow> (st' = st @ [f (st ! a)] \<and> p = length st)"
  by (auto simp: op1_def new_array_Inr)

lemma lossfunc_st_sim:
  assumes "lossfunc_st st Mat W H lamda = Inr (st', L)" "Mat < length st" "W < length st" "H < length st"
  shows "(\<exists>xs. st' = st @ xs) \<and> lossfunc (st ! Mat) (st ! W) (st ! H) lamda = Inr L"
  using assms
  by (auto simp: lossfunc_st_def lossfunc_def bind_eq_Inr op2_Inr nth_append split: prod.splits)

lemma grads_st_sim:
  assumes "grads_st st Mat W H lamda = Inr (st', gw, gh)" "Mat < length st" "W < length st" "H < length st"
  shows "(\<exists>xs. st' = st @ xs) \<and> length st \<le> gw \<and> gw < length st' \<and> length st \<le> gh \<and> gh < length st'
     \<and> grads (st ! Mat) (st ! W) (st ! H) lamda = Inr (st' ! gw, st' ! gh)"
  using assms
  by (auto simp: grads_st_def grads_def bind_eq_Inr op2_Inr op1_Inr nth_append split: prod.splits)

lemma sgd_body_st_sim:
  assumes "sgd_body_st st Mat eta lamda v = Inr (st', v')" "Mat < length st" "valid_refs st v"
  shows "(\<exists>xs. st' = st @ xs) \<and> length st \<le> r_W v' \<and> length st \<le> r_H v' \<and> valid_refs st' v'
     \<and> r_Error2 v' = s_Error2 (deref st' v')
     \<and> sgd_body (st ! Mat) eta lamda (deref st v) = Inr (deref st' v')"
proof -
  from assms(3) have W: "r_W v < length st" and H: "r_H v < length st"
    and wh: "\<forall>p\<in>set (r_w_history v). p < length st"
    and hh: "\<forall>p\<in>set (r_h_history v). p < length st"
    by (simp_all add: valid_refs_def)
  from assms(1) obtain st1 L st2 gw gh st3 EW st4 W' st5 EH st6 H' st7 P st8 R where
    l: "lossfunc_st st Mat (r_W v) (r_H v) lamda = Inr (st1, L)"
    and g: "grads_st st1 Mat (r_W v) (r_H v) lamda = Inr (st2, gw, gh)"
    and o3: "op1 (smul eta) st2 gw = Inr (st3, EW)"
    and o4: "op2 np_sub st3 (r_W v) EW = Inr (st4, W')"
    and o5: "op1 (smul eta) st4 gh = Inr (st5, EH)"
    and o6: "op2 np_sub st5 (r_H v) EH = Inr (st6, H')"
    and o7: "op2 matmul st6 W' H' = Inr (st7, P)"
    and o8: "op2 np_sub st7 Mat P = Inr (st8, R)"
    and v': "st' = st8" "v' = \<lparr>r_i = r_i v + 1,
                  r_Error2 = fl_abs (np_mean (st8 ! R)),
                  r_w_history = r_w_history v @ [r_W v],
                  r_h_history = r_h_history v @ [r_H v],
                  r_loss_history = r_loss_history v @ [L],
                  r_W = W', r_H = H'\<rparr>"
    by (auto simp: sgd_body_st_def bind_eq_Inr split: prod.splits)
  from lossfunc_st_sim [OF l assms(2) W H] obtain xs1 where
    st1: "st1 = st @ xs1" and lv: "lossfunc (st ! Mat) (st ! r_W v) (st ! r_H v) lamda = Inr L"
    by blast
  have "Mat < length st1" "r_W v < length st1" "r_H v < length st1"
    using assms(2) W H by (simp_all add: st1)
  from grads_st_sim [OF g this] obtain xs2 where
    st2: "st2 = st1 @ xs2" and gb: "length st1 \<le> gw" "gw < length st2" "length st1 \<le> gh" "gh < length st2"
    and gv: "grads (st1 ! Mat) (st1 ! r_W v) (st1 ! r_H v) lamda = Inr (st2 ! gw, st2 ! gh)"
    by blast
  from o3 have st3: "st3 = st2 @ [smul eta (st2 ! gw)]" "EW = length st2"
    by (simp_all add: op1_Inr)
  from o4 obtain Wn where Wn: "np_sub (st3 ! r_W v) (st3 ! EW) = Inr Wn" "st4 = st3 @ [Wn]"
    "W' = length st3" by (auto simp: op2_Inr)
  from o5 have st5: "st5 = st4 @ [smul eta (st4 ! gh)]" "EH = length st4"
    by (simp_all add: op1_Inr)
  from o6 obtain Hn where Hn: "np_sub (st5 ! r_H v) (st5 ! EH) = Inr Hn" "st6 = st5 @ [Hn]"
    "H' = length st5" by (auto simp: op2_Inr)
  from o7 obtain Pn where Pn: "matmul (st6 ! W') (st6 ! H') = Inr Pn" "st7 = st6 @ [Pn]"
    "P = length st6" by (auto simp: op2_Inr)
  from o8 obtain Rn where Rn: "np_sub (st7 ! Mat) (st7 ! P) = Inr Rn" "st8 = st7 @ [Rn]"
    "R = length st7" by (auto simp: op2_Inr)
  note sts = st1 st2 st3 Wn(2,3) st5 Hn(2,3) Pn(2,3) Rn(2,3)
  have ext: "st' = st @ (xs1 @ xs2 @ [smul eta (st2 ! gw), Wn, smul eta (st4 ! gh), Hn, Pn, Rn])"
    by (simp add: v' sts)
  have len: "length st \<le> r_W v'" "length st \<le> r_H v'"
    by (simp_all add: v' sts)
  have valid: "valid_refs st' v'"
    using W H wh hh by (auto simp: valid_refs_def v' sts)
  have lk: "st1 ! Mat = st ! Mat" "st1 ! r_W v = st ! r_W v" "st1 ! r_H v = st ! r_H v"
    using assms(2) W H by (simp_all add: st1 nth_append)
  have W3: "st3 ! r_W v = st ! r_W v" "st3 ! EW = smul eta (st2 ! gw)"
    using W by (simp_all add: sts nth_append)
  have H5: "st5 ! r_H v = st ! r_H v" "st5 ! EH = smul eta (st2 ! gh)" "st4 ! gh = st2 ! gh"
    using H gb by (simp_all add: sts nth_append)
  have P6: "st6 ! W' = Wn" "st6 ! H' = Hn"
    by (simp_all add: sts nth_append)
  have R7: "st7 ! Mat = st ! Mat" "st7 ! P = Pn"
    using assms(2) by (simp_all add: sts nth_append)
  have fin: "st8 ! R = Rn" "st8 ! W' = Wn" "st8 ! H' = Hn"
    by (simp_all add: sts nth_append)
  have hist: "map (\<lambda>p. st8 ! p) (r_w_history v) = map (\<lambda>p. st ! p) (r_w_history v)"
    "map (\<lambda>p. st8 ! p) (r_h_history v) = map (\<lambda>p. st ! p) (r_h_history v)"
    "st8 ! r_W v = st ! r_W v" "st8 ! r_H v = st ! r_H v"
    using wh hh W H by (simp_all add: sts nth_append)
  have mr: "mean_residual (st ! Mat) Wn Hn = Inr (np_mean Rn)"
    using Pn(1) Rn(1) by (simp add: mean_residual_def P6 R7)
  have "sgd_body (st ! Mat) eta lamda (deref st v) = Inr (deref st' v')"
    using lv gv Wn(1) Hn(1) mr
    by (simp add: sgd_body_def deref_def lk W3 H5 v' fin hist)
  moreover have "r_Error2 v' = s_Error2 (deref st' v')"
    by (simp add: deref_def)
  ultimately show ?thesis
    using ext len valid by blast
qed

lemma sgd_loop_st_sim:
  assumes "sgd_loop_st Mat eta lamda epsilon st v = Some r" "Mat < length st" "valid_refs st v"
  shows "\<forall>st' v'. r = Inr (st', v') \<longrightarrow>
     (\<exists>xs. st' = st @ xs) \<and> length st \<le> r_W v' \<and> length st \<le> r_H v' \<and> valid_refs st' v'
     \<and> sgd_loop (st ! Mat) eta lamda epsilon (deref st v) = Some (Inr (deref st' v'))"
proof -
  define P where "P = (\<lambda>Mat eta lamda epsilon st v (r :: error + store \<times> sgd_refs).
     Mat < length st \<longrightarrow> valid_refs st v \<longrightarrow>
     (\<forall>st' v'. r = Inr (st', v') \<longrightarrow>
       (\<exists>xs. st' = st @ xs) \<and> length st \<le> r_W v' \<and> length st \<le> r_H v' \<and> valid_refs st' v'
       \<and> sgd_loop (st ! Mat) eta lamda epsilon (deref st v) = Some (Inr (deref st' v'))))"
  have "P Mat eta lamda epsilon st v r"
  proof (rule sgd_loop_st.raw_induct [where P = P, OF _ assms(1)])
    fix loop Mat eta lamda epsilon st v r
    assume IH: "\<And>Mat eta lamda epsilon st v r.
        loop Mat eta lamda epsilon st v = Some r \<Longrightarrow> P Mat eta lamda epsilon st v r"
      and eq: "(case sgd_body_st st Mat eta lamda v of
                  Inl e \<Rightarrow> Some (Inl e)
                | Inr (st', v') \<Rightarrow>
                    if fl_less (fl_abs (fl_sub (r_Error2 v) (r_Error2 v'))) epsilon
                    then Some (Inr (st', v'))
                    else loop Mat eta lamda epsilon st' v') = Some r"
    show "P Mat eta lamda epsilon st v r"
      unfolding P_def
    proof (intro impI allI)
      fix st' v'
      assume M: "Mat < length st" and V: "valid_refs st v" and r: "r = Inr (st', v')"
      from eq r obtain st1 v1 where b: "sgd_body_st st Mat eta lamda v = Inr (st1, v1)"
        by (cases "sgd_body_st st Mat eta lamda v") auto
      from sgd_body_st_sim [OF b M V] obtain xs where
        s1: "st1 = st @ xs" "length st \<le> r_W v1" "length st \<le> r_H v1" "valid_refs st1 v1"
        "r_Error2 v1 = s_Error2 (deref st1 v1)"
        "sgd_body (st ! Mat) eta lamda (deref st v) = Inr (deref st1 v1)"
        by blast
      have cv: "converged epsilon (deref st v) (deref st1 v1)
                = fl_less (fl_abs (fl_sub (r_Error2 v) (r_Error2 v1))) epsilon"
        by (simp add: converged_def deref_def)
      show "(\<exists>xs. st' = st @ xs) \<and> length st \<le> r_W v' \<and> length st \<le> r_H v' \<and> valid_refs st' v'
         \<and> sgd_loop (st ! Mat) eta lamda epsilon (deref st v) = Some (Inr (deref st' v'))"
      proof (cases "fl_less (fl_abs (fl_sub (r_Error2 v) (r_Error2 v1))) epsilon")
        case True
        with eq b r have "st' = st1" "v' = v1" by simp_all
        moreover have "sgd_loop (st ! Mat) eta lamda epsilon (deref st v) = Some (Inr (deref st1 v1))"
          by (subst sgd_loop.simps) (simp add: s1(6) cv True)
        ultimately show ?thesis using s1 by blast
      next
        case False
        with eq b have "loop Mat eta lamda epsilon st1 v1 = Some r" by simp
        from IH [OF this] have "P Mat eta lamda epsilon st1 v1 r" .
        moreover have M1: "Mat < length st1" using M by (simp add: s1(1))
        ultimately obtain ys where
          s': "st' = st1 @ ys" "length st1 \<le> r_W v'" "length st1 \<le> r_H v'" "valid_refs st' v'"
          "sgd_loop (st1 ! Mat) eta lamda epsilon (deref st1 v1) = Some (Inr (deref st' v'))"
          unfolding P_def using s1(4) r by blast
        have "st1 ! Mat = st ! Mat"
          using M by (simp add: s1(1) nth_append)
        then have "sgd_loop (st ! Mat) eta lamda epsilon (deref st v) = Some (Inr (deref st' v'))"
          using s'(5) by (subst sgd_loop.simps) (simp add: s1(6) cv False)
        moreover have "st' = st @ (xs @ ys)" "length st \<le> r_W v'" "length st \<le> r_H v'"
          using s' by (simp_all add: s1(1))
        ultimately show ?thesis using s'(4) by blast
      qed
    qed
  qed
  then show ?thesis
    unfolding P_def using assms(2,3) by blast
qed

lemma sgd_init_st_sim:
  assumes "sgd_init_st st Mat num_topics gW gH = Inr (st0, v0)" "Mat < length st"
  shows "(\<exists>xs. st0 = st @ xs) \<and> valid_refs st0 v0
     \<and> sgd_init (st ! Mat) num_topics gW gH = Inr (deref st0 v0)"
  using assms
  by (auto simp: sgd_init_st_def sgd_init_def bind_eq_Inr new_array_Inr op1_Inr valid_refs_def
        deref_def nth_append split: prod.splits)

text \<open>
  C9. Let the caller's array stand at address \<open>Mat\<close> of the store \<open>st\<close>, and let \<open>sgd\<close>
  return in the store \<open>st'\<close> with the factors at the addresses \<open>Wf\<close> and \<open>Hf\<close>. Then
  every array of \<open>st\<close>, the caller's array among them, is in \<open>st'\<close> at its address with
  the entries it had; \<open>Wf\<close> and \<open>Hf\<close> are addresses of \<open>st'\<close> that \<open>st\<close> did not have, so
  the factors are new arrays and neither is the caller's array. The values returned
  are those of the routine on values, \<open>sgd\<close>, applied to the caller's array.
\<close>

theorem sgd_leaves_input_array:
  assumes "Mat < length st"
    and "sgd_st st Mat num_topics eta lamda epsilon gW gH
           = Some (Inr (st', Wf, Hf, lh, hh, wh, it, e))"
  shows "take (length st) st' = st \<and> st' ! Mat = st ! Mat
     \<and> length st \<le> Wf \<and> Wf < length st' \<and> length st \<le> Hf \<and> Hf < length st'
     \<and> Wf \<noteq> Mat \<and> Hf \<noteq> Mat
     \<and> sgd (st ! Mat) num_topics eta lamda epsilon gW gH
         = Some (Inr (st' ! Wf, st' ! Hf, lh, map (\<lambda>p. st' ! p) hh, map (\<lambda>p. st' ! p) wh, it, e))"
proof -
  from assms(2) obtain st0 v0 where i: "sgd_init_st st Mat num_topics gW gH = Inr (st0, v0)"
    by (cases "sgd_init_st st Mat num_topics gW gH") (auto simp: sgd_st_def)
  with assms(2) obtain r where r: "sgd_loop_st Mat eta lamda epsilon st0 v0 = Some r"
    "map_sum id sgd_return_st r = Inr (st', Wf, Hf, lh, hh, wh, it, e)"
    by (auto simp: sgd_st_def)
  then obtain v' where v': "r = Inr (st', v')"
    "Wf = r_W v'" "Hf = r_H v'" "lh = r_loss_history v'" "hh = r_h_history v'"
    "wh = r_w_history v'" "it = r_i v'" "e = r_Error2 v'"
    by (cases r) (auto simp: sgd_return_st_def)
  from sgd_init_st_sim [OF i assms(1)] obtain xs where
    s0: "st0 = st @ xs" "valid_refs st0 v0" "sgd_init (st ! Mat) num_topics gW gH = Inr (deref st0 v0)"
    by blast
  have M0: "Mat < length st0" using assms(1) by (simp add: s0(1))
  from sgd_loop_st_sim [OF r(1) M0 s0(2)] v'(1) obtain ys where
    s': "st' = st0 @ ys" "length st0 \<le> r_W v'" "length st0 \<le> r_H v'" "valid_refs st' v'"
    "sgd_loop (st0 ! Mat) eta lamda epsilon (deref st0 v0) = Some (Inr (deref st' v'))"
    by blast
  have "st0 ! Mat = st ! Mat" using assms(1) by (simp add: s0(1) nth_append)
  then have "sgd (st ! Mat) num_topics eta lamda epsilon gW gH
         = Some (Inr (st' ! Wf, st' ! Hf, lh, map (\<lambda>p. st' ! p) hh, map (\<lambda>p. st' ! p) wh, it, e))"
    using s'(5) by (simp add: sgd_def s0(3) sgd_return_def deref_def v')
  moreover have "take (length st) st' = st" "st' ! Mat = st ! Mat"
    using assms(1) by (simp_all add: s' s0(1) nth_append)
  moreover have "length st \<le> Wf" "Wf < length st'" "length st \<le> Hf" "Hf < length st'"
    "Wf \<noteq> Mat" "Hf \<noteq> Mat"
    using s'(2,3,4) assms(1) by (auto simp: v' s0(1) valid_refs_def)
  ultimately show ?thesis by blast
qed

lemma cancel_run_st:
  "\<exists>st' Wf Hf lh hh wh it e.
     sgd_st [of_rows [[1/2, 0]]] 0 1 (1/2) 0 (1/100) (sample_rows [[1]]) (sample_rows [[1/2, 1]])
       = Some (Inr (st', Wf, Hf, lh, hh, wh, it, e))"
proof -
  obtain st0 v0 where i:
    "sgd_init_st [of_rows [[1/2, 0]]] 0 1 (sample_rows [[1]]) (sample_rows [[1/2, 1]]) = Inr (st0, v0)"
    "r_Error2 v0 = Fin 0" "r_W v0 = 2" "r_H v0 = 4" "length st0 = 5"
    "st0 ! 0 = of_rows [[1/2, 0]]"
    "st0 ! 2 = np_abs \<lparr>nrows = 1, ncols = 1, ent = sample_rows [[1]]\<rparr>"
    "st0 ! 4 = np_abs \<lparr>nrows = 1, ncols = 2, ent = sample_rows [[1/2, 1]]\<rparr>"
    by (simp add: sgd_init_st_def op1_def new_array_def alloc_def random_normal_def shape_def
        of_rows_def numeral_2_eq_2)
  have "\<exists>st1 v1. sgd_body_st st0 0 (1/2) 0 v0 = Inr (st1, v1) \<and> r_Error2 v1 = Fin 0"
    using i(2-)
    by (simp add: sgd_body_st_def lossfunc_st_def grads_st_def op1_def op2_def new_array_def
        alloc_def nth_append eval_arr sample_rows_def)
  then obtain st1 v1 where b: "sgd_body_st st0 0 (1/2) 0 v0 = Inr (st1, v1)" "r_Error2 v1 = Fin 0"
    by blast
  have "sgd_loop_st 0 (1/2) 0 (1/100) st0 v0 = Some (Inr (st1, v1))"
    by (subst sgd_loop_st.simps) (simp add: b i(2))
  then show ?thesis
    by (simp add: sgd_st_def i(1) sgd_return_st_def)
qed

theorem sgd_leaves_input_array_witness:
  "(0::nat) < length [of_rows [[1/2, 0]]]
   \<and> (\<exists>st' Wf Hf lh hh wh it e.
         sgd_st [of_rows [[1/2, 0]]] 0 1 (1/2) 0 (1/100) (sample_rows [[1]]) (sample_rows [[1/2, 1]])
           = Some (Inr (st', Wf, Hf, lh, hh, wh, it, e))
         \<and> st' ! 0 = of_rows [[1/2, 0]] \<and> Wf \<noteq> 0 \<and> Hf \<noteq> 0)"
proof -
  from cancel_run_st obtain st' Wf Hf lh hh wh it e where run:
    "sgd_st [of_rows [[1/2, 0]]] 0 1 (1/2) 0 (1/100) (sample_rows [[1]]) (sample_rows [[1/2, 1]])
       = Some (Inr (st', Wf, Hf, lh, hh, wh, it, e))"
    by blast
  have len: "(0::nat) < length [of_rows [[1/2, 0]]]" by simp
  from sgd_leaves_input_array [OF len run]
  have "st' ! 0 = of_rows [[1/2, 0]] \<and> Wf \<noteq> 0 \<and> Hf \<noteq> 0" by simp
  with run len show ?thesis by blast
qed


end
